theory Spec2Isabelle
  imports Main "HOL-Library.AList" "HOL-Library.Multiset"
begin

section \<open>JavaScript values\<close>

text \<open>
  The program handles JSON: the bodies of HTTP responses, the survey document of the
  designer widget and the objects passed to the API client. A value is a \<open>json\<close>;
  \<open>undefined\<close> (a missing property, a missing argument) is \<open>None\<close> of \<open>json option\<close>.
  Numbers are integers here, of magnitude below \<open>10^21\<close>: the program never computes
  with a number it reads, it only tests its truthiness and prints it, and JavaScript
  prints such a number in decimal, as \<open>show_int\<close> does (from \<open>10^21\<close> on it prints an
  exponent form, which is not modelled).

  An object is written as the list of its property bindings in the order in which they
  were made. A later binding of a key overrides an earlier one, as in an object literal,
  in an object spread and in \<open>JSON.parse\<close>; so \<open>{...a, ...b, k: v}\<close> is
  \<open>a @ b @ [(k, v)]\<close> and a property is read with \<open>field\<close>. A property whose value is
  \<open>undefined\<close> is modelled as absent (the program reads such properties only through
  \<open>||\<close> and \<open>JSON.stringify\<close>, which treat the two alike).
\<close>

datatype json =
    JNull
  | JBool bool
  | JNum int
  | JStr string
  | JArr "json list"
  | JObj "(string \<times> json) list"

type_synonym obj = "(string \<times> json) list"
type_synonym jsval = "json option"

fun truthy_json :: "json \<Rightarrow> bool" where
  "truthy_json JNull = False"
| "truthy_json (JBool b) = b"
| "truthy_json (JNum n) = (n \<noteq> 0)"
| "truthy_json (JStr s) = (s \<noteq> [])"
| "truthy_json (JArr xs) = True"
| "truthy_json (JObj kvs) = True"

definition truthy :: "jsval \<Rightarrow> bool" where
  "truthy v = (case v of None \<Rightarrow> False | Some j \<Rightarrow> truthy_json j)"

text \<open>\<open>a || b\<close>, and \<open>a || d\<close> with a default \<open>d\<close> that is a value.\<close>

definition js_or :: "jsval \<Rightarrow> jsval \<Rightarrow> jsval" where
  "js_or a b = (if truthy a then a else b)"

definition or_default :: "jsval \<Rightarrow> json \<Rightarrow> json" where
  "or_default a d = (case a of None \<Rightarrow> d | Some j \<Rightarrow> if truthy_json j then j else d)"

text \<open>
  \<open>o.k\<close> for an object given by its bindings, and \<open>v.k\<close> for a value that is not
  \<open>null\<close> or \<open>undefined\<close>. The program reads the properties \<open>name\<close>, \<open>description\<close>,
  \<open>status\<close>, \<open>surveyJson\<close>, \<open>form_data\<close>, \<open>id\<close>, \<open>title\<close>, \<open>updatedAt\<close> and
  \<open>createdAt\<close>; none of them is inherited from a prototype, so a value that is not an
  object has none of them.
\<close>

definition field :: "obj \<Rightarrow> string \<Rightarrow> jsval" where
  "field ob k = map_of (rev ob) k"

definition get_prop :: "json \<Rightarrow> string \<Rightarrow> jsval" where
  "get_prop v k = (case v of JObj ob \<Rightarrow> field ob k | _ \<Rightarrow> None)"

text \<open>A property of an object literal: left out when its value is \<open>undefined\<close>.\<close>

definition opt_prop :: "string \<Rightarrow> jsval \<Rightarrow> obj" where
  "opt_prop k v = (case v of None \<Rightarrow> [] | Some j \<Rightarrow> [(k, j)])"

text \<open>Printing a number, and \<open>String(v)\<close> as a template literal applies it.\<close>

fun show_nat :: "nat \<Rightarrow> string" where
  "show_nat n =
     (if n < 10 then [''0123456789'' ! n]
      else show_nat (n div 10) @ [''0123456789'' ! (n mod 10)])"

declare show_nat.simps [simp del]

definition show_int :: "int \<Rightarrow> string" where
  "show_int i = (if i < 0 then CHR ''-'' # show_nat (nat (- i)) else show_nat (nat i))"

fun join_comma :: "string list \<Rightarrow> string" where
  "join_comma [] = []"
| "join_comma [s] = s"
| "join_comma (s # t # ss) = s @ '','' @ join_comma (t # ss)"

fun ToString_json :: "json \<Rightarrow> string" where
  "ToString_json JNull = ''null''"
| "ToString_json (JBool b) = (if b then ''true'' else ''false'')"
| "ToString_json (JNum n) = show_int n"
| "ToString_json (JStr s) = s"
| "ToString_json (JArr xs) =
     join_comma (map (\<lambda>x. if x = JNull then [] else ToString_json x) xs)"
| "ToString_json (JObj kvs) = ''[object Object]''"

definition ToString :: "jsval \<Rightarrow> string" where
  "ToString v = (case v of None \<Rightarrow> ''undefined'' | Some j \<Rightarrow> ToString_json j)"

text \<open>
  The own enumerable properties an object spread \<open>{...v}\<close> copies, and the keys
  \<open>Object.keys(v)\<close> lists: the bindings of an object, the indices of an array or a
  string, nothing for a number, a boolean or \<open>null\<close>.
\<close>

definition own_props :: "json \<Rightarrow> obj" where
  "own_props v =
     (case v of
        JObj ob \<Rightarrow> ob
      | JArr xs \<Rightarrow> zip (map show_nat [0..<length xs]) xs
      | JStr s \<Rightarrow> zip (map show_nat [0..<length s]) (map (\<lambda>c. JStr [c]) s)
      | _ \<Rightarrow> [])"

definition Object_keys :: "json \<Rightarrow> string list" where
  "Object_keys v = remdups (map fst (own_props v))"

section \<open>The Resource Client\<close>

text \<open>
  The backend and the clock are the world outside the program. \<open>respond w n r\<close> is what
  \<open>fetch\<close> settles with for the \<open>n\<close>-th request \<open>r\<close> of a run: \<open>Inl msg\<close> when the
  promise rejects (no connection), \<open>Inr\<close> a response otherwise. The requests made are
  recorded. \<open>clock w n\<close> is what the \<open>n\<close>-th \<open>new Date().toISOString()\<close> returns.

  A response carries its status, its body as \<open>response.text()\<close> gives it (\<open>None\<close> when
  that call throws) and as \<open>response.json()\<close> gives it (\<open>Inl msg\<close> when the body is not
  JSON). The body of a request is the object handed to \<open>JSON.stringify\<close>.
\<close>

record request =
  rmethod :: string
  url :: string
  headers :: "(string \<times> string) list"
  body :: "json option"

record response =
  status :: nat
  text_body :: "string option"
  json_body :: "string + json"

record world =
  respond :: "nat \<Rightarrow> request \<Rightarrow> string + response"
  requests :: "request list"
  clock :: "nat \<Rightarrow> string"
  clock_reads :: nat

definition fetch :: "request \<Rightarrow> world \<Rightarrow> (string + response) \<times> world" where
  "fetch r w = (respond w (length (requests w)) r, w\<lparr>requests := requests w @ [r]\<rparr>)"

definition new_Date_toISOString :: "world \<Rightarrow> string \<times> world" where
  "new_Date_toISOString w = (clock w (clock_reads w), w\<lparr>clock_reads := Suc (clock_reads w)\<rparr>)"

definition API_BASE_URL :: string where
  "API_BASE_URL = ''http://localhost:4000''"

definition ok :: "response \<Rightarrow> bool" where
  "ok r = (200 \<le> status r \<and> status r \<le> 299)"

text \<open>
  A thrown \<open>Error\<close> is \<open>Inl\<close> of its message. \<open>handleResponse\<close> throws on a status
  outside 200..299 and returns the parsed body otherwise.
\<close>

definition handleResponse :: "response \<Rightarrow> string \<Rightarrow> string + json" where
  "handleResponse r ctx =
     (if \<not> ok r then
        Inl (''HTTP '' @ show_nat (status r) @
             (case text_body r of Some t \<Rightarrow> '': '' @ t | None \<Rightarrow> '': Unknown error''))
      else json_body r)"

definition wrap_error :: "string \<Rightarrow> string + json \<Rightarrow> string + json" where
  "wrap_error prefix r = (case r of Inl e \<Rightarrow> Inl (prefix @ e) | Inr v \<Rightarrow> Inr v)"

definition json_headers :: "(string \<times> string) list" where
  "json_headers = [(''Content-Type'', ''application/json'')]"

definition default_survey :: json where
  "default_survey =
     JObj [(''pages'', JArr [JObj [(''name'', JStr ''page1''),
       (''elements'', JArr [JObj [(''type'', JStr ''text''),
          (''name'', JStr ''sample_question''), (''title'', JStr ''Sample Question'')]])]])]"

definition createModule_payload :: "obj \<Rightarrow> string \<Rightarrow> string \<Rightarrow> obj" where
  "createModule_payload moduleData t1 t2 =
     [(''name'', or_default (field moduleData ''name'') (JStr ''Untitled Survey'')),
      (''description'', or_default (field moduleData ''description'') (JStr ''No description provided'')),
      (''status'', or_default (field moduleData ''status'') (JStr ''Active'')),
      (''surveyJson'',
         or_default (js_or (field moduleData ''surveyJson'') (field moduleData ''form_data''))
           default_survey),
      (''createdAt'', JStr t1),
      (''updatedAt'', JStr t2)]"

definition createModule :: "obj \<Rightarrow> world \<Rightarrow> (string + json) \<times> world" where
  "createModule moduleData w =
     (let (t1, w1) = new_Date_toISOString w;
          (t2, w2) = new_Date_toISOString w1;
          payload = createModule_payload moduleData t1 t2;
          (r, w3) = fetch \<lparr>rmethod = ''POST'', url = API_BASE_URL @ ''/modules'',
                           headers = json_headers, body = Some (JObj payload)\<rparr> w2
      in (wrap_error ''Failed to create module: ''
            (case r of Inl e \<Rightarrow> Inl e | Inr resp \<Rightarrow> handleResponse resp ''createModule''), w3))"

definition getModule :: "jsval \<Rightarrow> world \<Rightarrow> (string + json) \<times> world" where
  "getModule mid w =
     (let (r, w1) = fetch \<lparr>rmethod = ''GET'', url = API_BASE_URL @ ''/modules/'' @ ToString mid,
                           headers = [], body = None\<rparr> w
      in (case r of
            Inl e \<Rightarrow> Inl e
          | Inr resp \<Rightarrow>
              if status resp = 404 then Inl (''Module with ID '' @ ToString mid @ '' not found'')
              else handleResponse resp ''getModule'', w1))"

text \<open>
  \<open>updateModule\<close> reads the module first. When that fails, for whatever reason, it
  returns the promise of \<open>createModule\<close> (not awaited, so an error of the creation is not
  wrapped a second time). Otherwise the payload is the stored module, then the patch,
  then the new \<open>updatedAt\<close>, and the two names of the survey document are aligned when
  the patch gives exactly one of them.
\<close>

definition updateModule_payload :: "json \<Rightarrow> obj \<Rightarrow> string \<Rightarrow> obj" where
  "updateModule_payload existingModule moduleData t =
     (let p0 = own_props existingModule @ moduleData @ [(''updatedAt'', JStr t)];
          p1 = (if truthy (field moduleData ''form_data'') \<and> \<not> truthy (field moduleData ''surveyJson'')
                then p0 @ opt_prop ''surveyJson'' (field moduleData ''form_data'') else p0);
          p2 = (if truthy (field moduleData ''surveyJson'') \<and> \<not> truthy (field moduleData ''form_data'')
                then p1 @ opt_prop ''form_data'' (field moduleData ''surveyJson'') else p1)
      in p2)"

definition updateModule :: "jsval \<Rightarrow> obj \<Rightarrow> world \<Rightarrow> (string + json) \<times> world" where
  "updateModule mid moduleData w =
     (case getModule mid w of
        (Inl e, w1) \<Rightarrow>
          createModule
            (moduleData @
             [(''name'', or_default (field moduleData ''name'') (JStr (''Survey '' @ ToString mid)))]) w1
      | (Inr existingModule, w1) \<Rightarrow>
          (let (t, w2) = new_Date_toISOString w1;
               updatePayload = updateModule_payload existingModule moduleData t;
               (r, w3) = fetch \<lparr>rmethod = ''PUT'', url = API_BASE_URL @ ''/modules/'' @ ToString mid,
                                headers = json_headers, body = Some (JObj updatePayload)\<rparr> w2
           in (wrap_error ''Failed to update module: ''
                 (case r of Inl e \<Rightarrow> Inl e | Inr resp \<Rightarrow> handleResponse resp ''updateModule''), w3)))"

definition deleteModule :: "jsval \<Rightarrow> world \<Rightarrow> (string + json) \<times> world" where
  "deleteModule mid w =
     (let (r, w1) = fetch \<lparr>rmethod = ''DELETE'', url = API_BASE_URL @ ''/modules/'' @ ToString mid,
                           headers = [], body = None\<rparr> w
      in (wrap_error ''Failed to delete module: ''
            (case r of
               Inl e \<Rightarrow> Inl e
             | Inr resp \<Rightarrow>
                 if status resp = 404 then Inl ''Module not found''
                 else handleResponse resp ''deleteModule''), w1))"

definition createSurvey :: "obj \<Rightarrow> world \<Rightarrow> (string + json) \<times> world" where
  "createSurvey surveyData w =
     createModule
       (opt_prop ''name'' (field surveyData ''name'') @
        opt_prop ''description'' (field surveyData ''description'') @
        [(''status'', or_default (field surveyData ''status'') (JStr ''Active''))] @
        opt_prop ''surveyJson'' (field surveyData ''surveyJson'')) w"

definition updateSurvey_data :: "obj \<Rightarrow> obj" where
  "updateSurvey_data surveyData =
     (let u0 = [];
          u1 = (if truthy (field surveyData ''surveyJson'')
                then u0 @ opt_prop ''surveyJson'' (field surveyData ''surveyJson'')
                        @ opt_prop ''form_data'' (field surveyData ''surveyJson'')
                else u0);
          u2 = (if truthy (field surveyData ''form_data'')
                then u1 @ opt_prop ''form_data'' (field surveyData ''form_data'')
                        @ opt_prop ''surveyJson'' (field surveyData ''form_data'')
                else u1)
      in u2)"

definition updateSurvey :: "jsval \<Rightarrow> obj \<Rightarrow> world \<Rightarrow> (string + json) \<times> world" where
  "updateSurvey mid surveyData w = updateModule mid (updateSurvey_data surveyData) w"

section \<open>The Module List View: duplicate cleanup\<close>

text \<open>
  \<open>handleCleanupDuplicates\<close> groups the loaded modules in a plain object
  \<open>moduleGroups = {}\<close> keyed by \<open>module.name || 'Unnamed'\<close>. A plain object inherits
  the properties of \<open>Object.prototype\<close>: for a key among them that is not yet an own
  property, \<open>moduleGroups[name]\<close> is a function (or, for \<open>__proto__\<close>, an object), which
  is truthy, so no array is stored and \<open>moduleGroups[name].push(module)\<close> throws a
  \<open>TypeError\<close>. The exception leaves \<open>forEach\<close> and is caught by the handler's outer
  \<open>catch\<close>. \<open>group_modules\<close> returns \<open>None\<close> for it.
\<close>

definition Object_prototype_keys :: "string list" where
  "Object_prototype_keys =
     [''constructor'', ''__defineGetter__'', ''__defineSetter__'', ''hasOwnProperty'',
      ''__lookupGetter__'', ''__lookupSetter__'', ''isPrototypeOf'', ''propertyIsEnumerable'',
      ''toString'', ''valueOf'', ''__proto__'', ''toLocaleString'']"

definition group_key :: "obj \<Rightarrow> string" where
  "group_key m = ToString (Some (or_default (field m ''name'') (JStr ''Unnamed'')))"

fun group_modules :: "obj list \<Rightarrow> (string \<times> obj list) list \<Rightarrow> (string \<times> obj list) list option" where
  "group_modules [] moduleGroups = Some moduleGroups"
| "group_modules (m # ms) moduleGroups =
     (case map_of moduleGroups (group_key m) of
        Some grp \<Rightarrow> group_modules ms (AList.update (group_key m) (grp @ [m]) moduleGroups)
      | None \<Rightarrow>
          if group_key m \<in> set Object_prototype_keys then None
          else group_modules ms (moduleGroups @ [(group_key m, [m])]))"

text \<open>
  \<open>Object.entries\<close> lists the keys that are array indices first, in ascending numeric
  order, then the other keys in the order of their creation.
\<close>

definition is_digit :: "char \<Rightarrow> bool" where
  "is_digit c = (c \<in> set ''0123456789'')"

definition nat_of_digits :: "string \<Rightarrow> nat" where
  "nat_of_digits s = foldl (\<lambda>n c. 10 * n + (of_char c - 48)) 0 s"

definition is_array_index :: "string \<Rightarrow> bool" where
  "is_array_index s =
     (if s = [] \<or> \<not> list_all is_digit s then False
      else if 1 < length s \<and> hd s = CHR ''0'' then False
      else nat_of_digits s < 4294967295)"

definition Object_entries :: "(string \<times> 'a) list \<Rightarrow> (string \<times> 'a) list" where
  "Object_entries ob =
     sort_key (\<lambda>kv. nat_of_digits (fst kv)) (filter (\<lambda>kv. is_array_index (fst kv)) ob) @
     filter (\<lambda>kv. \<not> is_array_index (fst kv)) ob"

text \<open>
  The comparator \<open>(a, b) => new Date(b.updatedAt || b.createdAt) - new Date(a.updatedAt
  || a.createdAt)\<close>. \<open>Date_ms\<close> is the time value \<open>new Date(v)\<close> has: \<open>None\<close> for an
  invalid date, whose difference with anything is \<open>NaN\<close>.

  \<open>Array.prototype.sort\<close> is stable and treats a \<open>NaN\<close> result as \<open>0\<close>. Every stable
  sort gives the same array when the comparator is consistent, and \<open>Array_sort\<close> is
  that array (a stable insertion sort); when it is not (valid and invalid dates in one
  group), the language leaves the order to the implementation.
\<close>

definition module_time :: "(jsval \<Rightarrow> int option) \<Rightarrow> obj \<Rightarrow> int option" where
  "module_time Date_ms m = Date_ms (js_or (field m ''updatedAt'') (field m ''createdAt''))"

definition compare_recent :: "(jsval \<Rightarrow> int option) \<Rightarrow> obj \<Rightarrow> obj \<Rightarrow> int option" where
  "compare_recent Date_ms a b =
     (case module_time Date_ms b of
        None \<Rightarrow> None
      | Some tb \<Rightarrow> (case module_time Date_ms a of None \<Rightarrow> None | Some ta \<Rightarrow> Some (tb - ta)))"

definition positive :: "int option \<Rightarrow> bool" where
  "positive v = (case v of None \<Rightarrow> False | Some n \<Rightarrow> 0 < n)"

fun insert_stable :: "('a \<Rightarrow> 'a \<Rightarrow> int option) \<Rightarrow> 'a \<Rightarrow> 'a list \<Rightarrow> 'a list" where
  "insert_stable comparefn x [] = [x]"
| "insert_stable comparefn x (y # ys) =
     (if positive (comparefn x y) then y # insert_stable comparefn x ys else x # y # ys)"

fun Array_sort :: "('a \<Rightarrow> 'a \<Rightarrow> int option) \<Rightarrow> 'a list \<Rightarrow> 'a list" where
  "Array_sort comparefn [] = []"
| "Array_sort comparefn (x # xs) = insert_stable comparefn x (Array_sort comparefn xs)"

text \<open>
  The loop over \<open>toDelete\<close>: each deletion is tried, a failure is caught and logged, a
  success increments \<open>deletedCount\<close>. The state is the count, the deletions tried so far
  (the \<open>id\<close> passed and whether \<open>deleteModule\<close> returned) and the world.
  \<open>deleteModule\<close> is the API service the view imports, taken as a parameter.
\<close>

type_synonym 'w sweep = "nat \<times> (jsval \<times> bool) list \<times> 'w"

fun delete_each ::
  "(jsval \<Rightarrow> 'w \<Rightarrow> (string + json) \<times> 'w) \<Rightarrow> obj list \<Rightarrow> 'w sweep \<Rightarrow> 'w sweep" where
  "delete_each del [] st = st"
| "delete_each del (m # ms) (deletedCount, tried, w) =
     (case del (field m ''id'') w of
        (Inl e, w') \<Rightarrow> delete_each del ms (deletedCount, tried @ [(field m ''id'', False)], w')
      | (Inr v, w') \<Rightarrow> delete_each del ms (Suc deletedCount, tried @ [(field m ''id'', True)], w'))"

fun sweep_groups ::
  "(jsval \<Rightarrow> int option) \<Rightarrow> (jsval \<Rightarrow> 'w \<Rightarrow> (string + json) \<times> 'w) \<Rightarrow>
   (string \<times> obj list) list \<Rightarrow> 'w sweep \<Rightarrow> 'w sweep" where
  "sweep_groups Date_ms del [] st = st"
| "sweep_groups Date_ms del ((name, grp) # rest) st =
     sweep_groups Date_ms del rest
       (if 1 < length grp
        then delete_each del (tl (Array_sort (compare_recent Date_ms) grp)) st
        else st)"

datatype notice = Message_success string | Message_error string

record cleanup =
  shown :: notice
  tried :: "(jsval \<times> bool) list"
  reload :: bool

text \<open>
  The \<open>onOk\<close> handler of the confirmation dialog, up to its call of \<open>loadModules\<close>
  (which is not awaited).
\<close>

definition handleCleanupDuplicates_onOk ::
  "(jsval \<Rightarrow> int option) \<Rightarrow> (jsval \<Rightarrow> 'w \<Rightarrow> (string + json) \<times> 'w) \<Rightarrow>
   obj list \<Rightarrow> 'w \<Rightarrow> cleanup \<times> 'w" where
  "handleCleanupDuplicates_onOk Date_ms del modules w =
     (case group_modules modules [] of
        None \<Rightarrow>
          (\<lparr>shown = Message_error ''Failed to cleanup duplicates'', tried = [], reload = False\<rparr>, w)
      | Some moduleGroups \<Rightarrow>
          (case sweep_groups Date_ms del (Object_entries moduleGroups) (0, [], w) of
             (deletedCount, tr, w') \<Rightarrow>
               (\<lparr>shown = Message_success
                    (''Cleanup completed! Removed '' @ show_nat deletedCount @ '' duplicate modules.''),
                 tried = tr, reload = True\<rparr>, w')))"

section \<open>The Builder Adapter\<close>

text \<open>
  \<open>AddModule\<close> (the version with the save status and the module id, the second in the
  file). Its props, as far as the save function reads them: \<open>json\<close>, \<open>surveyData\<close>,
  whether \<open>onSave\<close> is a function and whether the injected \<open>apiService\<close> has
  \<open>updateSurvey\<close> and \<open>createSurvey\<close>.

  The component's state: the React state \<open>creator\<close>, \<open>saveStatus\<close> and
  \<open>currentModuleId\<close>, and the refs. The designer instance is created once, by the effect
  guarded with \<open>if (!creator)\<close>, and its \<open>saveSurveyFunc\<close> is a closure made in that one
  run of the effect: the \<open>currentModuleId\<close> it reads is the constant of the render that
  ran the effect. \<open>creator\<close> is \<open>None\<close> before, and afterwards \<open>Some\<close> of that captured
  value. The refs are read when the function runs.
\<close>

record props =
  json_prop :: jsval
  surveyData :: jsval
  has_onSave :: bool
  has_updateSurvey :: bool
  has_createSurvey :: bool

record session =
  creator :: "jsval option"
  saveStatus :: string
  currentModuleId :: jsval
  manualSaveRef :: bool
  isSavingRef :: bool
  lastSavedContentRef :: string

text \<open>The designer instance as the adapter reads it: \<open>instance.JSON\<close> and \<open>instance.text\<close>.\<close>

record widget =
  wJSON :: json
  wtext :: string

definition defaultJson :: json where
  "defaultJson =
     JObj [(''pages'', JArr [JObj [(''name'', JStr ''Name''),
       (''elements'', JArr
          [JObj [(''name'', JStr ''FirstName''), (''title'', JStr ''Enter your first name:''),
                 (''type'', JStr ''text'')],
           JObj [(''name'', JStr ''LastName''), (''title'', JStr ''Enter your last name:''),
                 (''type'', JStr ''text'')]])]])]"

text \<open>Optional chaining, \<open>v?.k\<close>.\<close>

definition opt_chain :: "jsval \<Rightarrow> string \<Rightarrow> jsval" where
  "opt_chain v k = (case v of None \<Rightarrow> None | Some j \<Rightarrow> if j = JNull then None else get_prop j k)"

definition initial_session :: "props \<Rightarrow> session" where
  "initial_session p =
     \<lparr>creator = None, saveStatus = [],
      currentModuleId = js_or (opt_chain (surveyData p) ''id'') (Some JNull),
      manualSaveRef = False, isSavingRef = False, lastSavedContentRef = []\<rparr>"

text \<open>
  The initial document: the \<open>json\<close> prop, else the document of \<open>surveyData\<close>, else what
  the browser's local storage holds (\<open>saved\<close>: \<open>None\<close> when there is no item or it does
  not parse), else the default.
\<close>

definition initialJson :: "props \<Rightarrow> jsval \<Rightarrow> json" where
  "initialJson p saved =
     (if truthy (json_prop p) then or_default (json_prop p) defaultJson
      else if truthy (surveyData p) \<and>
              truthy (js_or (opt_chain (surveyData p) ''surveyJson'') (opt_chain (surveyData p) ''form_data''))
      then or_default (js_or (opt_chain (surveyData p) ''surveyJson'') (opt_chain (surveyData p) ''form_data''))
             defaultJson
      else (case saved of None \<Rightarrow> defaultJson | Some j \<Rightarrow> j))"

text \<open>
  The effect that creates the instance. React runs it after the first render and after
  every render in which \<open>creator\<close>, \<open>options\<close>, \<open>onSave\<close>, \<open>apiService\<close> or
  \<open>currentModuleId\<close> changed; its body does nothing once \<open>creator\<close> is set.
\<close>

definition useEffect_creator :: "(json \<Rightarrow> string) \<Rightarrow> props \<Rightarrow> jsval \<Rightarrow> session \<Rightarrow> session" where
  "useEffect_creator JSON_stringify p saved s =
     (case creator s of
        Some captured \<Rightarrow> s
      | None \<Rightarrow>
          s\<lparr>lastSavedContentRef := JSON_stringify (or_default (Some (initialJson p saved)) defaultJson),
            creator := Some (currentModuleId s)\<rparr>)"

text \<open>
  What a run of \<open>saveSurveyFunc\<close> does besides changing the state: the acknowledgment
  \<open>callback(saveNo, ok)\<close>, the timers it sets and the backup to local storage. The
  function suspends at one place, the \<open>await\<close> of the API call; \<open>saveSurveyFunc_begin\<close>
  is the part before it, \<open>saveSurveyFunc_resume\<close> the part after it, given what the call
  settled with (\<open>Inl\<close> the message of the error thrown, \<open>Inr\<close> the result). The
  acknowledgment callback belongs to the widget and is taken not to throw.
\<close>

datatype effect =
    Callback nat bool
  | SetTimeout_clear_status nat
  | SetTimeout_onSave nat json
  | LocalStorage_setItem string string

datatype api_call = UpdateSurvey jsval obj | CreateSurvey obj

record pending =
  call :: api_call
  saveNo :: nat
  currentContent :: string

text \<open>The \<open>catch\<close> block followed by \<open>finally\<close>.\<close>

definition save_failed :: "string \<Rightarrow> nat \<Rightarrow> session \<Rightarrow> session \<times> effect list" where
  "save_failed message n s =
     (s\<lparr>saveStatus := ''Save failed: '' @ message, isSavingRef := False\<rparr>,
      [SetTimeout_clear_status 5000, Callback n False])"

definition saveSurveyFunc_begin ::
  "(json \<Rightarrow> string) \<Rightarrow> props \<Rightarrow> jsval \<Rightarrow> widget \<Rightarrow> string \<Rightarrow> nat \<Rightarrow> session \<Rightarrow>
   session \<times> effect list \<times> pending option" where
  "saveSurveyFunc_begin JSON_stringify p captured inst localeDate n s =
     (if isSavingRef s then (s, [Callback n True], None)
      else if JSON_stringify (wJSON inst) = lastSavedContentRef s \<and> \<not> manualSaveRef s
      then (s, [Callback n True], None)
      else
        (let s1 = s\<lparr>isSavingRef := True, saveStatus := ''Saving...''\<rparr>;
             surveyJson = wJSON inst
         in if \<not> truthy_json surveyJson \<or> length (Object_keys surveyJson) = 0
            then (case save_failed ''Survey data is empty'' n s1 of (s2, es) \<Rightarrow> (s2, es, None))
            else if truthy captured \<and> has_updateSurvey p
            then (s1, [],
                  Some \<lparr>call = UpdateSurvey captured [(''surveyJson'', surveyJson)],
                        saveNo = n, currentContent = JSON_stringify (wJSON inst)\<rparr>)
            else if has_createSurvey p
            then (s1, [],
                  Some \<lparr>call = CreateSurvey
                          [(''name'', or_default (get_prop surveyJson ''title'') (JStr (''Survey '' @ localeDate))),
                           (''description'', JStr (''Created on '' @ localeDate)),
                           (''status'', JStr ''Active''),
                           (''surveyJson'', surveyJson)],
                        saveNo = n, currentContent = JSON_stringify (wJSON inst)\<rparr>)
            else (case save_failed ''No API service available'' n s1 of (s2, es) \<Rightarrow> (s2, es, None))))"

definition saveSurveyFunc_resume ::
  "props \<Rightarrow> widget \<Rightarrow> pending \<Rightarrow> string + json \<Rightarrow> session \<Rightarrow> session \<times> effect list" where
  "saveSurveyFunc_resume p inst pd settled_with s =
     (case settled_with of
        Inl message \<Rightarrow> save_failed message (saveNo pd) s
      | Inr result \<Rightarrow>
          (let s1 = (case call pd of
                       UpdateSurvey i d \<Rightarrow> s\<lparr>saveStatus := ''Updated successfully!''\<rparr>
                     | CreateSurvey d \<Rightarrow>
                         (if truthy_json result \<and> truthy (get_prop result ''id'')
                          then s\<lparr>currentModuleId := get_prop result ''id''\<rparr> else s)
                         \<lparr>saveStatus := ''Created successfully!''\<rparr>);
               s2 = s1\<lparr>lastSavedContentRef := currentContent pd\<rparr>;
               es = [LocalStorage_setItem ''survey-json'' (wtext inst), Callback (saveNo pd) True,
                     SetTimeout_clear_status 2000] @
                    (if manualSaveRef s2 \<and> has_onSave p then [SetTimeout_onSave 1000 result] else [])
           in (s2\<lparr>manualSaveRef := False, isSavingRef := False\<rparr>, es)))"

text \<open>
  A builder session as a machine. Its events: the widget asks for a save (the debounced
  autosave), the user presses Ctrl+S (\<open>handleKeyDown\<close> sets \<open>manualSaveRef\<close> and calls
  \<open>instance.doSave()\<close>, which asks for a save), and the outstanding API call settles.
  Each event carries what the instance holds at that moment. After each event React
  renders again and runs the effect.
\<close>

datatype event =
    AutoSave widget string nat
  | CtrlS widget string nat
  | Settle "string + json" widget

record config =
  sess :: session
  outstanding :: "pending list"
  emitted :: "effect list"
  issued :: "api_call list"
  settled :: "(api_call \<times> (string + json)) list"

definition mount :: "(json \<Rightarrow> string) \<Rightarrow> props \<Rightarrow> jsval \<Rightarrow> config" where
  "mount JSON_stringify p saved =
     \<lparr>sess = useEffect_creator JSON_stringify p saved (initial_session p),
      outstanding = [], emitted = [], issued = [], settled = []\<rparr>"

definition doSave :: "(json \<Rightarrow> string) \<Rightarrow> props \<Rightarrow> widget \<Rightarrow> string \<Rightarrow> nat \<Rightarrow> config \<Rightarrow> config" where
  "doSave JSON_stringify p inst localeDate n c =
     (case creator (sess c) of
        None \<Rightarrow> c
      | Some captured \<Rightarrow>
          (case saveSurveyFunc_begin JSON_stringify p captured inst localeDate n (sess c) of
             (s', es, pd) \<Rightarrow>
               c\<lparr>sess := s', emitted := emitted c @ es,
                 outstanding := outstanding c @ (case pd of None \<Rightarrow> [] | Some q \<Rightarrow> [q]),
                 issued := issued c @ (case pd of None \<Rightarrow> [] | Some q \<Rightarrow> [call q])\<rparr>))"

definition render :: "(json \<Rightarrow> string) \<Rightarrow> props \<Rightarrow> jsval \<Rightarrow> config \<Rightarrow> config" where
  "render JSON_stringify p saved c = c\<lparr>sess := useEffect_creator JSON_stringify p saved (sess c)\<rparr>"

fun step :: "(json \<Rightarrow> string) \<Rightarrow> props \<Rightarrow> jsval \<Rightarrow> config \<Rightarrow> event \<Rightarrow> config" where
  "step JSON_stringify p saved c (AutoSave inst localeDate n) =
     render JSON_stringify p saved (doSave JSON_stringify p inst localeDate n c)"
| "step JSON_stringify p saved c (CtrlS inst localeDate n) =
     (case creator (sess c) of
        None \<Rightarrow> c
      | Some captured \<Rightarrow>
          render JSON_stringify p saved
            (doSave JSON_stringify p inst localeDate n (c\<lparr>sess := (sess c)\<lparr>manualSaveRef := True\<rparr>\<rparr>)))"
| "step JSON_stringify p saved c (Settle r inst) =
     (case outstanding c of
        [] \<Rightarrow> c
      | pd # rest \<Rightarrow>
          (case saveSurveyFunc_resume p inst pd r (sess c) of
             (s', es) \<Rightarrow>
               render JSON_stringify p saved
                 (c\<lparr>sess := s', outstanding := rest, emitted := emitted c @ es,
                    settled := settled c @ [(call pd, r)]\<rparr>)))"

definition run :: "(json \<Rightarrow> string) \<Rightarrow> props \<Rightarrow> jsval \<Rightarrow> config \<Rightarrow> event list \<Rightarrow> config" where
  "run JSON_stringify p saved c es = foldl (step JSON_stringify p saved) c es"

text \<open>
  The session with the Resource Client injected as \<open>apiService\<close>: a save is asked for
  and, when it issues an API call, the call runs against the world and settles.
\<close>

definition apiService :: "api_call \<Rightarrow> world \<Rightarrow> (string + json) \<times> world" where
  "apiService c w =
     (case c of
        UpdateSurvey i d \<Rightarrow> updateSurvey i d w
      | CreateSurvey d \<Rightarrow> createSurvey d w)"

definition save_and_settle ::
  "(json \<Rightarrow> string) \<Rightarrow> props \<Rightarrow> jsval \<Rightarrow> event \<Rightarrow> config \<times> world \<Rightarrow> config \<times> world" where
  "save_and_settle JSON_stringify p saved e cw =
     (case cw of
        (c, w) \<Rightarrow>
          (let c1 = step JSON_stringify p saved c e
           in case outstanding c1 of
                [] \<Rightarrow> (c1, w)
              | pd # rest \<Rightarrow>
                  (case apiService (call pd) w of
                     (r, w') \<Rightarrow>
                       (step JSON_stringify p saved c1
                          (Settle r (case e of AutoSave inst d n \<Rightarrow> inst
                                      | CtrlS inst d n \<Rightarrow> inst | Settle r' inst \<Rightarrow> inst)), w'))))"

text \<open>
  A serializer for concrete runs: \<open>JSON.stringify\<close> on values whose strings need no
  escape. The theorems below hold for every serializer.
\<close>

fun print_json :: "json \<Rightarrow> string" where
  "print_json JNull = ''null''"
| "print_json (JBool b) = (if b then ''true'' else ''false'')"
| "print_json (JNum n) = show_int n"
| "print_json (JStr s) = CHR 0x22 # s @ [CHR 0x22]"
| "print_json (JArr xs) = ''['' @ join_comma (map print_json xs) @ '']''"
| "print_json (JObj kvs) =
     ''{'' @ join_comma (map (\<lambda>kv. CHR 0x22 # fst kv @ [CHR 0x22] @ '':'' @ print_json (snd kv)) kvs) @ ''}''"


section \<open>Notions used in the statements\<close>

text \<open>
  The guard and the outstanding call agree: \<open>isSavingRef\<close> is set exactly while an API
  call is outstanding, and there is at most one.
\<close>

definition guarded :: "config \<Rightarrow> bool" where
  "guarded c = (creator (sess c) \<noteq> None \<and> length (outstanding c) \<le> 1 \<and>
                isSavingRef (sess c) = (outstanding c \<noteq> []))"

text \<open>
  A run of autosave triggers that all carry the document \<open>d\<close>, with the settlements of
  the calls they issue; the calls that failed and those that succeeded; a session in
  which nothing has been issued yet and no manual save is requested.
\<close>

definition autosave_of :: "json \<Rightarrow> event \<Rightarrow> bool" where
  "autosave_of d e =
     (case e of AutoSave inst ld n \<Rightarrow> wJSON inst = d | CtrlS inst ld n \<Rightarrow> False | Settle r inst \<Rightarrow> True)"

definition failed :: "api_call \<times> (string + json) \<Rightarrow> bool" where
  "failed x = (case snd x of Inl m \<Rightarrow> True | Inr v \<Rightarrow> False)"

definition succeeded :: "api_call \<times> (string + json) \<Rightarrow> bool" where
  "succeeded x = (case snd x of Inl m \<Rightarrow> False | Inr v \<Rightarrow> True)"

definition idle :: "config \<Rightarrow> bool" where
  "idle c = (creator (sess c) \<noteq> None \<and> outstanding c = [] \<and> \<not> isSavingRef (sess c) \<and>
             \<not> manualSaveRef (sess c) \<and> issued c = [] \<and> settled c = [])"

text \<open>The three phases such a run goes through.\<close>

definition retrying :: "config \<Rightarrow> bool" where
  "retrying c =
     (outstanding c = [] \<and> \<not> isSavingRef (sess c) \<and> filter succeeded (settled c) = [] \<and>
      length (issued c) = length (filter failed (settled c)))"

definition waiting :: "string \<Rightarrow> config \<Rightarrow> bool" where
  "waiting content c =
     (length (outstanding c) = 1 \<and> list_all (\<lambda>q. currentContent q = content) (outstanding c) \<and>
      isSavingRef (sess c) \<and> filter succeeded (settled c) = [] \<and>
      length (issued c) = Suc (length (filter failed (settled c))))"

definition saved_once :: "string \<Rightarrow> config \<Rightarrow> bool" where
  "saved_once content c =
     (outstanding c = [] \<and> \<not> isSavingRef (sess c) \<and> length (filter succeeded (settled c)) = 1 \<and>
      lastSavedContentRef (sess c) = content \<and>
      length (issued c) = Suc (length (filter failed (settled c))))"

definition autosaving :: "string \<Rightarrow> config \<Rightarrow> bool" where
  "autosaving content c =
     (creator (sess c) \<noteq> None \<and> \<not> manualSaveRef (sess c) \<and>
      (retrying c \<or> waiting content c \<or> saved_once content c))"

text \<open>The document an API call carries, and the timers that call \<open>onSave\<close>.\<close>

definition call_document :: "api_call \<Rightarrow> jsval" where
  "call_document c =
     (case c of UpdateSurvey i d \<Rightarrow> field d ''surveyJson'' | CreateSurvey d \<Rightarrow> field d ''surveyJson'')"

definition schedules_onSave :: "effect \<Rightarrow> bool" where
  "schedules_onSave e = (case e of SetTimeout_onSave ms r \<Rightarrow> True | _ \<Rightarrow> False)"

text \<open>The body and the method of the last request made.\<close>

definition last_payload :: "world \<Rightarrow> json" where
  "last_payload w =
     (if requests w = [] then JNull
      else case body (last (requests w)) of None \<Rightarrow> JNull | Some j \<Rightarrow> j)"

definition last_method :: "world \<Rightarrow> string" where
  "last_method w = (if requests w = [] then [] else rmethod (last (requests w)))"

text \<open>
  For the cleanup: the group stored under a key; the modules the sweep sets out to
  delete, group by group; the time value of a module that has a valid date.
\<close>

definition bucket :: "(string \<times> obj list) list \<Rightarrow> string \<Rightarrow> obj list" where
  "bucket g k = (case map_of g k of None \<Rightarrow> [] | Some grp \<Rightarrow> grp)"

definition to_delete :: "(jsval \<Rightarrow> int option) \<Rightarrow> (string \<times> obj list) list \<Rightarrow> obj list" where
  "to_delete Date_ms groups =
     concat (map (\<lambda>g. if 1 < length (snd g) then tl (Array_sort (compare_recent Date_ms) (snd g)) else [])
       groups)"

definition dated :: "(jsval \<Rightarrow> int option) \<Rightarrow> obj \<Rightarrow> bool" where
  "dated Date_ms m = (module_time Date_ms m \<noteq> None)"

definition recency :: "(jsval \<Rightarrow> int option) \<Rightarrow> obj \<Rightarrow> int" where
  "recency Date_ms m = (case module_time Date_ms m of None \<Rightarrow> 0 | Some t \<Rightarrow> t)"

text \<open>
  The calls a save function can issue when the module id its closure captured is
  \<open>captured\<close>: updates of that id when it is truthy (and the service can update),
  creations otherwise.
\<close>

definition issues_only :: "props \<Rightarrow> jsval \<Rightarrow> api_call \<Rightarrow> bool" where
  "issues_only p captured c =
     (case c of
        UpdateSurvey i d \<Rightarrow> truthy captured \<and> has_updateSurvey p \<and> i = captured
      | CreateSurvey d \<Rightarrow> \<not> (truthy captured \<and> has_updateSurvey p))"

definition closure_bound :: "props \<Rightarrow> jsval \<Rightarrow> config \<Rightarrow> bool" where
  "closure_bound p captured c =
     (creator (sess c) = Some captured \<and> list_all (issues_only p captured) (issued c) \<and>
      list_all (\<lambda>q. issues_only p captured (call q)) (outstanding c))"

subsection \<open>Concrete sessions and backends\<close>

text \<open>
  A new survey (no \<open>surveyData\<close>) and the editing of module \<open>"7"\<close>, both with the
  Resource Client injected and an \<open>onSave\<close> callback; a designer holding a document with
  a title; the session after mounting, and with one save in flight.
\<close>

definition demo_props :: props where
  "demo_props = \<lparr>json_prop = None, surveyData = None, has_onSave = True,
                  has_updateSurvey = True, has_createSurvey = True\<rparr>"

definition edit_props :: props where
  "edit_props = \<lparr>json_prop = None,
                  surveyData = Some (JObj [(''id'', JStr ''7''), (''name'', JStr ''Old''),
                                           (''surveyJson'', JObj [(''title'', JStr ''Old'')])]),
                  has_onSave = True, has_updateSurvey = True, has_createSurvey = True\<rparr>"

definition titled :: "string \<Rightarrow> widget" where
  "titled t = \<lparr>wJSON = JObj [(''title'', JStr t)], wtext = print_json (JObj [(''title'', JStr t)])\<rparr>"

definition empty_widget :: widget where
  "empty_widget = \<lparr>wJSON = JObj [], wtext = ''{}''\<rparr>"

definition unchanged_widget :: widget where
  "unchanged_widget = \<lparr>wJSON = defaultJson, wtext = print_json defaultJson\<rparr>"

definition fresh_session :: config where
  "fresh_session = mount print_json demo_props None"

definition edit_session :: config where
  "edit_session = mount print_json edit_props None"

definition one_in_flight :: config where
  "one_in_flight =
     run print_json demo_props None fresh_session [AutoSave (titled ''A'') ''1/1/2025'' 1]"

definition pending_A :: pending where
  "pending_A =
     \<lparr>call = CreateSurvey [(''name'', JStr ''A''), (''description'', JStr ''Created on 1/1/2025''),
                           (''status'', JStr ''Active''), (''surveyJson'', JObj [(''title'', JStr ''A'')])],
      saveNo = 1, currentContent = print_json (JObj [(''title'', JStr ''A'')])\<rparr>"

text \<open>
  A clock, and two backends: one that holds no module (it answers 404 to everything but
  a POST, which creates a record and gives it the number of the request as its id), and
  one that holds the module \<open>m\<close> under every id asked for. A world that starts with
  one of them.
\<close>

definition demo_clock :: "nat \<Rightarrow> string" where
  "demo_clock n = ''2025-01-01T00:00:0'' @ show_nat n @ ''.000Z''"

definition backend_without :: "nat \<Rightarrow> request \<Rightarrow> string + response" where
  "backend_without n r =
     (if rmethod r = ''POST''
      then Inr \<lparr>status = 201, text_body = Some [],
                json_body = Inr (JObj (own_props (case body r of None \<Rightarrow> JNull | Some j \<Rightarrow> j) @
                                       [(''id'', JStr (show_nat n))]))\<rparr>
      else Inr \<lparr>status = 404, text_body = Some ''Not Found'', json_body = Inr (JObj [])\<rparr>)"

definition backend_with :: "obj \<Rightarrow> nat \<Rightarrow> request \<Rightarrow> string + response" where
  "backend_with m n r =
     (if rmethod r = ''POST''
      then Inr \<lparr>status = 201, text_body = Some [],
                json_body = Inr (JObj (own_props (case body r of None \<Rightarrow> JNull | Some j \<Rightarrow> j) @
                                       [(''id'', JStr (show_nat n))]))\<rparr>
      else if rmethod r = ''PUT''
      then Inr \<lparr>status = 200, text_body = Some [],
                json_body = Inr (case body r of None \<Rightarrow> JNull | Some j \<Rightarrow> j)\<rparr>
      else if rmethod r = ''GET''
      then Inr \<lparr>status = 200, text_body = Some [], json_body = Inr (JObj m)\<rparr>
      else Inr \<lparr>status = 200, text_body = Some ''{}'', json_body = Inr (JObj [])\<rparr>)"

definition world_of :: "(nat \<Rightarrow> request \<Rightarrow> string + response) \<Rightarrow> world" where
  "world_of b = \<lparr>respond = b, requests = [], clock = demo_clock, clock_reads = 0\<rparr>"

definition stored_demo :: obj where
  "stored_demo = [(''id'', JStr ''1''), (''name'', JStr ''A''), (''status'', JStr ''Draft''),
                  (''surveyJson'', JObj [(''title'', JStr ''X'')]),
                  (''form_data'', JObj [(''title'', JStr ''Y'')])]"

text \<open>
  The time value of \<open>new Date(n)\<close> for a number \<open>n\<close> of milliseconds within the range
  of dates (8.64e15 either side of the epoch; invalid beyond). It stands for \<open>new Date\<close>
  on the concrete module lists below only, which carry such numbers as timestamps: it
  does not parse date strings. The general lemmas take the date parser as a parameter.
\<close>

definition Date_of_number :: "jsval \<Rightarrow> int option" where
  "Date_of_number v =
     (case v of
        Some (JNum n) \<Rightarrow>
          if - 8640000000000000 \<le> n \<and> n \<le> 8640000000000000 then Some n else None
      | _ \<Rightarrow> None)"

text \<open>
  Two saves of a new survey, and two saves of module \<open>"7"\<close> after the backend has
  deleted it, each through the Resource Client against the empty backend: the designer
  holds the document titled A at the first save and B at the second.
\<close>

definition new_survey_saved_once :: "config \<times> world" where
  "new_survey_saved_once =
     save_and_settle print_json demo_props None (AutoSave (titled ''A'') ''1/1/2025'' 1)
       (fresh_session, world_of backend_without)"

definition new_survey_saved_twice :: "config \<times> world" where
  "new_survey_saved_twice =
     save_and_settle print_json demo_props None (AutoSave (titled ''B'') ''1/1/2025'' 2)
       new_survey_saved_once"

definition deleted_module_saved_once :: "config \<times> world" where
  "deleted_module_saved_once =
     save_and_settle print_json edit_props None (AutoSave (titled ''A'') ''1/1/2025'' 1)
       (edit_session, world_of backend_without)"

definition deleted_module_saved_twice :: "config \<times> world" where
  "deleted_module_saved_twice =
     save_and_settle print_json edit_props None (AutoSave (titled ''B'') ''1/1/2025'' 2)
       deleted_module_saved_once"

text \<open>
  Module lists for the cleanup: two modules named \<open>constructor\<close>, and the list of the
  spec's example.
\<close>

definition inherited_name_modules :: "obj list" where
  "inherited_name_modules =
     [[(''id'', JStr ''1''), (''name'', JStr ''constructor''), (''updatedAt'', JNum 1000)],
      [(''id'', JStr ''2''), (''name'', JStr ''constructor''), (''updatedAt'', JNum 2000)]]"

definition example_modules :: "obj list" where
  "example_modules =
     [[(''name'', JStr ''A''), (''updatedAt'', JNum 1000), (''id'', JNum 1)],
      [(''name'', JStr ''A''), (''updatedAt'', JNum 2000), (''id'', JNum 2)],
      [(''name'', JStr ''B''), (''id'', JNum 3)]]"

section \<open>Properties\<close>

lemma field_append:
  "field (a @ b) k = (case field b k of Some v \<Rightarrow> Some v | None \<Rightarrow> field a k)"
  by (simp add: field_def map_add_def split: option.splits)


lemmas adapter_defs = saveSurveyFunc_begin_def saveSurveyFunc_resume_def save_failed_def Let_def

lemmas eval_defs =
  run_def mount_def useEffect_creator_def initial_session_def initialJson_def doSave_def render_def
  saveSurveyFunc_begin_def saveSurveyFunc_resume_def save_failed_def Let_def
  demo_props_def edit_props_def titled_def empty_widget_def unchanged_widget_def
  fresh_session_def edit_session_def one_in_flight_def pending_A_def
  truthy_def js_or_def opt_chain_def or_default_def get_prop_def field_def
  Object_keys_def own_props_def defaultJson_def

subsection \<open>What one run of the save function changes\<close>

lemma begin_frame:
  assumes "saveSurveyFunc_begin S p cap inst d n s = (s', es, pd)"
  shows "creator s' = creator s" "manualSaveRef s' = manualSaveRef s"
    "lastSavedContentRef s' = lastSavedContentRef s" "currentModuleId s' = currentModuleId s"
  using assms by (auto simp: adapter_defs split: if_splits)

lemma begin_guard:
  assumes "saveSurveyFunc_begin S p cap inst d n s = (s', es, pd)"
  shows "isSavingRef s \<Longrightarrow> s' = s \<and> es = [Callback n True] \<and> pd = None"
    and "\<not> isSavingRef s \<Longrightarrow> isSavingRef s' = (pd \<noteq> None)"
    and "pd = Some q \<Longrightarrow> currentContent q = S (wJSON inst) \<and> saveNo q = n"
  using assms by (auto simp: adapter_defs split: if_splits)

lemma begin_unchanged:
  assumes "S (wJSON inst) = lastSavedContentRef s" "\<not> manualSaveRef s"
  shows "saveSurveyFunc_begin S p cap inst ld n s = (s, [Callback n True], None)"
  using assms by (simp add: adapter_defs)

lemma resume_frame:
  assumes "saveSurveyFunc_resume p inst pd r s = (s', es)"
  shows "creator s' = creator s" "\<not> isSavingRef s'"
  using assms by (auto simp: adapter_defs split: if_splits sum.splits api_call.splits)

lemma resume_Inl:
  assumes "saveSurveyFunc_resume p inst pd (Inl m) s = (s', es)"
  shows "manualSaveRef s' = manualSaveRef s" "lastSavedContentRef s' = lastSavedContentRef s"
    "currentModuleId s' = currentModuleId s" "saveStatus s' = ''Save failed: '' @ m"
    "es = [SetTimeout_clear_status 5000, Callback (saveNo pd) False]"
  using assms by (auto simp: adapter_defs)

lemma resume_Inr:
  assumes "saveSurveyFunc_resume p inst pd (Inr v) s = (s', es)"
  shows "\<not> manualSaveRef s'" "lastSavedContentRef s' = currentContent pd"
  using assms by (auto simp: adapter_defs split: api_call.splits if_splits)

text \<open>Once the instance exists, the effect changes nothing: the closure is never renewed.\<close>

lemma render_id: "creator (sess c) \<noteq> None \<Longrightarrow> render S p saved c = c"
  by (auto simp: render_def useEffect_creator_def)

subsection \<open>The guard is an invariant of the session\<close>

lemma guarded_mount: "guarded (mount S p saved)"
  by (simp add: guarded_def mount_def useEffect_creator_def initial_session_def)

lemma guarded_doSave:
  assumes "guarded c"
  shows "guarded (doSave S p inst d n c)"
proof -
  from assms obtain cap where cap: "creator (sess c) = Some cap" by (auto simp: guarded_def)
  obtain s' es pd where b: "saveSurveyFunc_begin S p cap inst d n (sess c) = (s', es, pd)"
    by (cases "saveSurveyFunc_begin S p cap inst d n (sess c)")
  have cr: "creator s' = creator (sess c)" using begin_frame(1)[OF b] .
  show ?thesis
  proof (cases "isSavingRef (sess c)")
    case True
    with begin_guard(1)[OF b] have "s' = sess c" "pd = None" by simp_all
    then show ?thesis using assms cap b by (simp add: doSave_def guarded_def)
  next
    case False
    with begin_guard(2)[OF b] have g: "isSavingRef s' = (pd \<noteq> None)" by simp
    from False assms have "outstanding c = []" by (simp add: guarded_def)
    then show ?thesis using assms cap b cr g by (cases pd) (simp_all add: doSave_def guarded_def)
  qed
qed

lemma guarded_step: "guarded c \<Longrightarrow> guarded (step S p saved c e)"
proof (cases e)
  case (AutoSave inst d n)
  assume "guarded c"
  then have "guarded (doSave S p inst d n c)" by (rule guarded_doSave)
  then show ?thesis using AutoSave by (simp add: render_id guarded_def)
next
  case (CtrlS inst d n)
  assume a: "guarded c"
  then have "guarded (c\<lparr>sess := (sess c)\<lparr>manualSaveRef := True\<rparr>\<rparr>)" by (simp add: guarded_def)
  then have "guarded (doSave S p inst d n (c\<lparr>sess := (sess c)\<lparr>manualSaveRef := True\<rparr>\<rparr>))"
    by (rule guarded_doSave)
  then show ?thesis using CtrlS a by (auto simp add: render_id guarded_def split: option.splits)
next
  case (Settle r inst)
  assume a: "guarded c"
  show ?thesis
  proof (cases "outstanding c")
    case Nil
    then show ?thesis using a Settle by simp
  next
    case (Cons pd rest)
    obtain s' es where r: "saveSurveyFunc_resume p inst pd r (sess c) = (s', es)"
      by (cases "saveSurveyFunc_resume p inst pd r (sess c)")
    from a Cons have rest: "rest = []" by (simp add: guarded_def)
    have "guarded (c\<lparr>sess := s', outstanding := rest, emitted := emitted c @ es,
                     settled := settled c @ [(call pd, r)]\<rparr>)"
      using a resume_frame[OF r] rest by (simp add: guarded_def)
    then show ?thesis using Settle Cons r by (simp add: render_id guarded_def)
  qed
qed

lemma guarded_run: "guarded c \<Longrightarrow> guarded (run S p saved c es)"
  unfolding run_def by (induction es arbitrary: c) (auto intro: guarded_step)

lemma in_flight_step:
  assumes "guarded c" "isSavingRef (sess c)"
  shows "step S p saved c (AutoSave inst d n) = c\<lparr>emitted := emitted c @ [Callback n True]\<rparr>"
  using assms by (auto simp: guarded_def doSave_def adapter_defs render_def useEffect_creator_def)

lemma in_flight_step_CtrlS:
  assumes "guarded c" "isSavingRef (sess c)"
  shows "step S p saved c (CtrlS inst d n) =
     c\<lparr>sess := (sess c)\<lparr>manualSaveRef := True\<rparr>, emitted := emitted c @ [Callback n True]\<rparr>"
  using assms by (auto simp: guarded_def doSave_def adapter_defs render_def useEffect_creator_def)

lemma one_in_flight_eval:
  "sess one_in_flight =
     \<lparr>creator = Some (Some JNull), saveStatus = ''Saving...'', currentModuleId = Some JNull,
      manualSaveRef = False, isSavingRef = True, lastSavedContentRef = print_json defaultJson\<rparr>"
  "outstanding one_in_flight = [pending_A]"
  by (simp_all add: eval_defs)

lemma fresh_session_eval:
  "sess fresh_session =
     \<lparr>creator = Some (Some JNull), saveStatus = [], currentModuleId = Some JNull,
      manualSaveRef = False, isSavingRef = False, lastSavedContentRef = print_json defaultJson\<rparr>"
  "outstanding fresh_session = []" "issued fresh_session = []" "settled fresh_session = []"
  by (simp_all add: eval_defs)

text \<open>
  C3, as the spec has it: a save trigger that arrives while a save is in flight mutates
  no state. The manual gesture is a save trigger too: \<open>handleKeyDown\<close> sets
  \<open>manualSaveRef\<close> and then asks for the save. With the save of A in flight, Ctrl+S
  leaves the flag set although its save is skipped; when the call of A then succeeds,
  that success finds the flag and sets the timer that calls \<open>onSave\<close>.
\<close>

theorem manual_trigger_in_flight_counterexample:
  "isSavingRef (sess one_in_flight) \<and> \<not> manualSaveRef (sess one_in_flight) \<and>
   manualSaveRef (sess (step print_json demo_props None one_in_flight
      (CtrlS (titled ''B'') ''1/1/2025'' 2))) \<and>
   emitted (run print_json demo_props None one_in_flight
      [CtrlS (titled ''B'') ''1/1/2025'' 2,
       Settle (Inr (JObj [(''id'', JStr ''1'')])) (titled ''B'')]) =
     [Callback 2 True,
      LocalStorage_setItem ''survey-json'' (print_json (JObj [(''title'', JStr ''B'')])),
      Callback 1 True, SetTimeout_clear_status 2000,
      SetTimeout_onSave 1000 (JObj [(''id'', JStr ''1'')])]"
  by (simp add: eval_defs)

text \<open>
  C3, amended. In every session, whatever the triggers and settlements, at most one API
  call is outstanding. A run of the save function that finds \<open>isSavingRef\<close> set returns
  the state as it found it, issues no call and acknowledges with success. For the
  session, an autosave trigger in that state only adds the acknowledgment; a Ctrl+S in
  that state adds the acknowledgment and sets \<open>manualSaveRef\<close> (set by the key handler
  before the save function runs), and changes nothing else: no call is issued, none is
  settled.
\<close>

theorem in_flight_trigger_is_skipped:
  "length (outstanding (run S p saved (mount S p saved) es)) \<le> 1 \<and>
   (isSavingRef s \<longrightarrow>
      saveSurveyFunc_begin S p cap inst ld n s = (s, [Callback n True], None)) \<and>
   (isSavingRef (sess (run S p saved (mount S p saved) es)) \<longrightarrow>
      step S p saved (run S p saved (mount S p saved) es) (AutoSave inst ld n) =
      (run S p saved (mount S p saved) es)
        \<lparr>emitted := emitted (run S p saved (mount S p saved) es) @ [Callback n True]\<rparr>) \<and>
   (isSavingRef (sess (run S p saved (mount S p saved) es)) \<longrightarrow>
      step S p saved (run S p saved (mount S p saved) es) (CtrlS inst ld n) =
      (run S p saved (mount S p saved) es)
        \<lparr>sess := (sess (run S p saved (mount S p saved) es))\<lparr>manualSaveRef := True\<rparr>,
         emitted := emitted (run S p saved (mount S p saved) es) @ [Callback n True]\<rparr>)"
proof -
  have g: "guarded (run S p saved (mount S p saved) es)"
    by (rule guarded_run[OF guarded_mount])
  then have 1: "length (outstanding (run S p saved (mount S p saved) es)) \<le> 1"
    by (simp add: guarded_def)
  have 2: "isSavingRef s \<longrightarrow>
      saveSurveyFunc_begin S p cap inst ld n s = (s, [Callback n True], None)"
    by (simp add: adapter_defs)
  from 1 2 in_flight_step[OF g] in_flight_step_CtrlS[OF g] show ?thesis by blast
qed

theorem in_flight_trigger_is_skipped_witness:
  "isSavingRef (sess one_in_flight) \<and>
   length (outstanding one_in_flight) \<le> 1 \<and>
   saveSurveyFunc_begin print_json demo_props (Some JNull) (titled ''B'') ''1/1/2025'' 2
     (sess one_in_flight) = (sess one_in_flight, [Callback 2 True], None) \<and>
   step print_json demo_props None one_in_flight (AutoSave (titled ''B'') ''1/1/2025'' 2) =
     one_in_flight\<lparr>emitted := emitted one_in_flight @ [Callback 2 True]\<rparr> \<and>
   step print_json demo_props None one_in_flight (CtrlS (titled ''B'') ''1/1/2025'' 2) =
     one_in_flight\<lparr>sess := (sess one_in_flight)\<lparr>manualSaveRef := True\<rparr>,
                   emitted := emitted one_in_flight @ [Callback 2 True]\<rparr>"
proof -
  have h: "isSavingRef (sess one_in_flight)" by (simp add: one_in_flight_eval)
  have c: "run print_json demo_props None (mount print_json demo_props None)
             [AutoSave (titled ''A'') ''1/1/2025'' 1] = one_in_flight"
    by (simp add: one_in_flight_def fresh_session_def)
  from in_flight_trigger_is_skipped[of print_json demo_props None
      "[AutoSave (titled ''A'') ''1/1/2025'' 1]" "sess one_in_flight" "Some JNull"
      "titled ''B''" "''1/1/2025''" 2] h
  show ?thesis unfolding c by simp
qed

subsection \<open>Autosave triggers that carry one document\<close>

lemma autosaving_doSave:
  assumes a: "autosaving (S d) c" and d: "wJSON inst = d"
  shows "autosaving (S d) (doSave S p inst ld n c)"
proof -
  from a obtain cap where cap: "creator (sess c) = Some cap" by (auto simp: autosaving_def)
  obtain s' es pd where b: "saveSurveyFunc_begin S p cap inst ld n (sess c) = (s', es, pd)"
    by (cases "saveSurveyFunc_begin S p cap inst ld n (sess c)")
  note fr = begin_frame[OF b]
  from a have nm: "\<not> manualSaveRef (sess c)" by (simp add: autosaving_def)
  from a consider (R) "retrying c" | (W) "waiting (S d) c" | (O) "saved_once (S d) c"
    by (auto simp: autosaving_def)
  then show ?thesis
  proof cases
    case R
    then have ns: "\<not> isSavingRef (sess c)" by (simp add: retrying_def)
    from begin_guard(2)[OF b ns] have g: "isSavingRef s' = (pd \<noteq> None)" .
    show ?thesis
    proof (cases pd)
      case None
      with R g b cap fr nm show ?thesis
        by (simp add: doSave_def autosaving_def retrying_def)
    next
      case (Some q)
      from begin_guard(3)[OF b Some] d have "currentContent q = S d" by simp
      with Some R g b cap fr nm show ?thesis
        by (simp add: doSave_def autosaving_def retrying_def waiting_def)
    qed
  next
    case W
    then have "isSavingRef (sess c)" by (simp add: waiting_def)
    from begin_guard(1)[OF b this] have "s' = sess c" "pd = None" by simp_all
    with W a b cap show ?thesis
      by (simp add: doSave_def autosaving_def waiting_def retrying_def saved_once_def)
  next
    case O
    then have "S (wJSON inst) = lastSavedContentRef (sess c)" using d by (simp add: saved_once_def)
    from begin_unchanged[where S=S, OF this nm] b have "s' = sess c" "pd = None" by simp_all
    with O a b cap show ?thesis
      by (simp add: doSave_def autosaving_def waiting_def retrying_def saved_once_def)
  qed
qed

lemma autosaving_settle:
  assumes a: "autosaving content c"
  shows "autosaving content (step S p saved c (Settle r inst))"
proof (cases "outstanding c")
  case Nil
  then show ?thesis using a by simp
next
  case (Cons pd rest)
  with a have W: "waiting content c"
    by (auto simp: autosaving_def retrying_def saved_once_def)
  with Cons have rest: "rest = []" and cc: "currentContent pd = content" by (simp_all add: waiting_def)
  obtain s' es where rs: "saveSurveyFunc_resume p inst pd r (sess c) = (s', es)"
    by (cases "saveSurveyFunc_resume p inst pd r (sess c)")
  note fr = resume_frame[OF rs]
  from a have cr: "creator (sess c) \<noteq> None" and nm: "\<not> manualSaveRef (sess c)"
    by (simp_all add: autosaving_def)
  let ?c' = "c\<lparr>sess := s', outstanding := rest, emitted := emitted c @ es,
                settled := settled c @ [(call pd, r)]\<rparr>"
  have "autosaving content ?c'"
  proof (cases r)
    case (Inl m)
    with rs resume_Inl[of p inst pd m "sess c" s' es] W fr cr nm rest show ?thesis
      by (simp add: autosaving_def retrying_def waiting_def failed_def succeeded_def)
  next
    case (Inr v)
    with rs resume_Inr[of p inst pd v "sess c" s' es] W fr cr nm rest cc show ?thesis
      by (simp add: autosaving_def saved_once_def waiting_def failed_def succeeded_def)
  qed
  moreover have "creator (sess ?c') \<noteq> None" using fr cr by simp
  ultimately show ?thesis using Cons rs by (simp add: render_id)
qed

lemma autosaving_step:
  assumes "autosaving (S d) c" "autosave_of d e"
  shows "autosaving (S d) (step S p saved c e)"
proof (cases e)
  case (AutoSave inst ld n)
  with assms have "wJSON inst = d" by (simp add: autosave_of_def)
  from autosaving_doSave[where S=S, OF assms(1) this]
  have x: "autosaving (S d) (doSave S p inst ld n c)" .
  then have "creator (sess (doSave S p inst ld n c)) \<noteq> None" by (simp add: autosaving_def)
  with x AutoSave show ?thesis by (simp add: render_id)
next
  case (CtrlS inst ld n)
  with assms show ?thesis by (simp add: autosave_of_def)
next
  case (Settle r inst)
  with assms autosaving_settle show ?thesis by simp
qed

lemma autosaving_run:
  "autosaving (S d) c \<Longrightarrow> list_all (autosave_of d) es \<Longrightarrow> autosaving (S d) (run S p saved c es)"
  unfolding run_def by (induction es arbitrary: c) (auto intro: autosaving_step)

lemma idle_autosaving: "idle c \<Longrightarrow> autosaving content c"
  by (simp add: idle_def autosaving_def retrying_def)

lemma autosaving_bound:
  "autosaving content c \<Longrightarrow>
     length (filter succeeded (settled c)) \<le> 1 \<and>
     length (issued c) \<le> Suc (length (filter failed (settled c)))"
  by (auto simp: autosaving_def retrying_def waiting_def saved_once_def)

text \<open>
  C4, as the spec has it: after N consecutive autosave triggers with identical content
  at most one create or update call is issued. It fails when the call fails: the content
  last saved is set on success only, so the next trigger with the same content issues
  the call again. Two triggers with the document titled A, the first call rejected: two
  calls are issued.
\<close>

theorem identical_autosaves_counterexample:
  "length (issued (run print_json demo_props None fresh_session
     [AutoSave (titled ''A'') ''1/1/2025'' 1,
      Settle (Inl ''Failed to create module: HTTP 500: '') (titled ''A''),
      AutoSave (titled ''A'') ''1/1/2025'' 2])) = 2"
  by (simp add: eval_defs)

text \<open>
  C4, amended. An autosave trigger whose serialized content equals the content last
  saved, with no manual save requested, returns the state unchanged, issues no call and
  acknowledges with success. In a session where nothing was issued yet and no manual
  save is requested, after any number of autosave triggers carrying one document
  (interleaved with the settlements of their calls) at most one call has succeeded, and
  the calls issued are at most one more than the calls that failed: a call is issued
  again only after a failure, and never after a success.
\<close>

theorem unchanged_autosave_is_skipped:
  "(S (wJSON inst) = lastSavedContentRef s \<and> \<not> manualSaveRef s \<longrightarrow>
      saveSurveyFunc_begin S p cap inst ld n s = (s, [Callback n True], None)) \<and>
   (idle c \<and> list_all (autosave_of d) es \<longrightarrow>
      length (filter succeeded (settled (run S p saved c es))) \<le> 1 \<and>
      length (issued (run S p saved c es)) \<le>
        Suc (length (filter failed (settled (run S p saved c es)))))"
proof (intro conjI impI)
  assume "S (wJSON inst) = lastSavedContentRef s \<and> \<not> manualSaveRef s"
  then show "saveSurveyFunc_begin S p cap inst ld n s = (s, [Callback n True], None)"
    by (simp add: begin_unchanged)
next
  assume a: "idle c \<and> list_all (autosave_of d) es"
  then have "autosaving (S d) c" by (simp add: idle_autosaving)
  with a have r: "autosaving (S d) (run S p saved c es)" by (simp add: autosaving_run)
  from autosaving_bound[OF r]
  show "length (filter succeeded (settled (run S p saved c es))) \<le> 1"
    and "length (issued (run S p saved c es)) \<le>
           Suc (length (filter failed (settled (run S p saved c es))))"
    by simp_all
qed

theorem unchanged_autosave_is_skipped_witness:
  "print_json (wJSON unchanged_widget) = lastSavedContentRef (sess fresh_session) \<and>
   \<not> manualSaveRef (sess fresh_session) \<and>
   saveSurveyFunc_begin print_json demo_props (Some JNull) unchanged_widget ''1/1/2025'' 1
     (sess fresh_session) = (sess fresh_session, [Callback 1 True], None) \<and>
   idle fresh_session \<and>
   list_all (autosave_of (JObj [(''title'', JStr ''A'')]))
     [AutoSave (titled ''A'') ''1/1/2025'' 1, Settle (Inr (JObj [(''id'', JNum 1)])) (titled ''A''),
      AutoSave (titled ''A'') ''1/1/2025'' 2, AutoSave (titled ''A'') ''1/1/2025'' 3] \<and>
   length (issued (run print_json demo_props None fresh_session
     [AutoSave (titled ''A'') ''1/1/2025'' 1, Settle (Inr (JObj [(''id'', JNum 1)])) (titled ''A''),
      AutoSave (titled ''A'') ''1/1/2025'' 2, AutoSave (titled ''A'') ''1/1/2025'' 3])) \<le>
     Suc (length (filter failed (settled (run print_json demo_props None fresh_session
     [AutoSave (titled ''A'') ''1/1/2025'' 1, Settle (Inr (JObj [(''id'', JNum 1)])) (titled ''A''),
      AutoSave (titled ''A'') ''1/1/2025'' 2, AutoSave (titled ''A'') ''1/1/2025'' 3]))))"
proof -
  have h1: "print_json (wJSON unchanged_widget) = lastSavedContentRef (sess fresh_session)"
    by (simp add: fresh_session_eval unchanged_widget_def)
  have h2: "\<not> manualSaveRef (sess fresh_session)" by (simp add: fresh_session_eval)
  have h3: "idle fresh_session" by (simp add: idle_def fresh_session_eval)
  have h4: "list_all (autosave_of (JObj [(''title'', JStr ''A'')]))
     [AutoSave (titled ''A'') ''1/1/2025'' 1, Settle (Inr (JObj [(''id'', JNum 1)])) (titled ''A''),
      AutoSave (titled ''A'') ''1/1/2025'' 2, AutoSave (titled ''A'') ''1/1/2025'' 3]"
    by (simp add: autosave_of_def titled_def)
  from unchanged_autosave_is_skipped[of print_json unchanged_widget "sess fresh_session"
      demo_props "Some JNull" "''1/1/2025''" 1 fresh_session "JObj [(''title'', JStr ''A'')]"
      "[AutoSave (titled ''A'') ''1/1/2025'' 1, Settle (Inr (JObj [(''id'', JNum 1)])) (titled ''A''),
        AutoSave (titled ''A'') ''1/1/2025'' 2, AutoSave (titled ''A'') ''1/1/2025'' 3]" None]
    h1 h2 h3 h4
  show ?thesis by blast
qed


subsection \<open>One run of the save function\<close>

text \<open>
  C5. A save attempt is a run of the save function that gets past its two short cuts
  (no save in flight; content changed or manual save). With the empty object as the
  document, no run of the function issues an API call, whatever the state; and a save
  attempt fails: the status is the message of the error \<open>Survey data is empty\<close>, the
  acknowledgment is negative, and the guard is free again.
\<close>

theorem empty_document_rejected:
  "wJSON inst = JObj [] \<Longrightarrow>
     snd (snd (saveSurveyFunc_begin S p cap inst ld n s)) = None \<and>
     (\<not> isSavingRef s \<and> (S (JObj []) \<noteq> lastSavedContentRef s \<or> manualSaveRef s) \<longrightarrow>
        saveSurveyFunc_begin S p cap inst ld n s =
          (s\<lparr>isSavingRef := False, saveStatus := ''Save failed: Survey data is empty''\<rparr>,
           [SetTimeout_clear_status 5000, Callback n False], None))"
  by (auto simp: adapter_defs Object_keys_def own_props_def)

theorem empty_document_rejected_witness:
  "wJSON empty_widget = JObj [] \<and> \<not> isSavingRef (sess fresh_session) \<and>
   print_json (JObj []) \<noteq> lastSavedContentRef (sess fresh_session) \<and>
   saveSurveyFunc_begin print_json demo_props (Some JNull) empty_widget ''1/1/2025'' 1 (sess fresh_session) =
     ((sess fresh_session)\<lparr>isSavingRef := False, saveStatus := ''Save failed: Survey data is empty''\<rparr>,
      [SetTimeout_clear_status 5000, Callback 1 False], None)"
proof -
  have h1: "wJSON empty_widget = JObj []" by (simp add: empty_widget_def)
  have h2: "\<not> isSavingRef (sess fresh_session)" by (simp add: fresh_session_eval)
  have h3: "print_json (JObj []) \<noteq> lastSavedContentRef (sess fresh_session)"
    by (simp add: fresh_session_eval defaultJson_def)
  from empty_document_rejected[OF h1, where S = print_json and p = demo_props and cap = "Some JNull"
      and ld = "''1/1/2025''" and n = 1 and s = "sess fresh_session"]
    h1 h2 h3
  show ?thesis by blast
qed




text \<open>
  C9. For a save attempt that issued a call for the document of the designer and whose
  call succeeds: the content last saved becomes the serialized document that the call
  carried, and \<open>manualSaveRef\<close> is cleared; when \<open>manualSaveRef\<close> is set at that moment
  (and the \<open>onSave\<close> prop is a function), exactly one timer is set that calls \<open>onSave\<close>
  with the result of the call; when it is not set, no such timer is set.
\<close>

theorem manual_save_success_notifies:
  assumes "snd (snd (saveSurveyFunc_begin S p cap inst0 ld n s0)) = Some pd"
  shows "call_document (call pd) = Some (wJSON inst0) \<and>
     (case saveSurveyFunc_resume p inst pd (Inr result) s of
        (s', es) \<Rightarrow>
          lastSavedContentRef s' = S (wJSON inst0) \<and> \<not> manualSaveRef s' \<and>
          (manualSaveRef s \<and> has_onSave p \<longrightarrow>
             filter schedules_onSave es = [SetTimeout_onSave 1000 result]) \<and>
          (\<not> manualSaveRef s \<longrightarrow> filter schedules_onSave es = []))"
proof -
  obtain s1 es1 where b: "saveSurveyFunc_begin S p cap inst0 ld n s0 = (s1, es1, Some pd)"
    using assms by (cases "saveSurveyFunc_begin S p cap inst0 ld n s0") auto
  obtain s' es where r: "saveSurveyFunc_resume p inst pd (Inr result) s = (s', es)"
    by (cases "saveSurveyFunc_resume p inst pd (Inr result) s")
  from b have "call_document (call pd) = Some (wJSON inst0)"
    by (auto simp: adapter_defs call_document_def field_def split: if_splits)
  moreover from begin_guard(3)[OF b] have "currentContent pd = S (wJSON inst0)" by simp
  moreover from r have "lastSavedContentRef s' = currentContent pd" "\<not> manualSaveRef s'"
    by (rule resume_Inr)+
  moreover from r have "manualSaveRef s \<and> has_onSave p \<longrightarrow>
        filter schedules_onSave es = [SetTimeout_onSave 1000 result]"
    by (auto simp: adapter_defs schedules_onSave_def split: api_call.splits if_splits)
  moreover from r have "\<not> manualSaveRef s \<longrightarrow> filter schedules_onSave es = []"
    by (auto simp: adapter_defs schedules_onSave_def split: api_call.splits if_splits)
  ultimately show ?thesis using r by simp
qed

theorem manual_save_success_notifies_witness:
  "snd (snd (saveSurveyFunc_begin print_json demo_props (Some JNull) (titled ''A'') ''1/1/2025'' 1
     (sess fresh_session))) = Some pending_A \<and>
   manualSaveRef ((sess one_in_flight)\<lparr>manualSaveRef := True\<rparr>) \<and> has_onSave demo_props \<and>
   filter schedules_onSave (snd (saveSurveyFunc_resume demo_props (titled ''A'') pending_A
     (Inr (JObj [(''id'', JStr ''1'')])) ((sess one_in_flight)\<lparr>manualSaveRef := True\<rparr>))) =
     [SetTimeout_onSave 1000 (JObj [(''id'', JStr ''1'')])] \<and>
   \<not> manualSaveRef (sess one_in_flight) \<and>
   filter schedules_onSave (snd (saveSurveyFunc_resume demo_props (titled ''A'') pending_A
     (Inr (JObj [(''id'', JStr ''1'')])) (sess one_in_flight))) = []"
proof -
  have h1: "snd (snd (saveSurveyFunc_begin print_json demo_props (Some JNull) (titled ''A'') ''1/1/2025'' 1
     (sess fresh_session))) = Some pending_A"
    by (simp add: fresh_session_eval eval_defs)
  have h2: "has_onSave demo_props" by (simp add: demo_props_def)
  have h3: "\<not> manualSaveRef (sess one_in_flight)" by (simp add: one_in_flight_eval)
  from manual_save_success_notifies[OF h1, where inst = "titled ''A''"
      and result = "JObj [(''id'', JStr ''1'')]"
      and s = "(sess one_in_flight)\<lparr>manualSaveRef := True\<rparr>"]
    manual_save_success_notifies[OF h1, where inst = "titled ''A''"
      and result = "JObj [(''id'', JStr ''1'')]" and s = "sess one_in_flight"]
    h1 h2 h3
  show ?thesis by (auto split: prod.splits)
qed


section \<open>Properties of the Resource Client\<close>

lemmas client_defs =
  save_and_settle_def apiService_def createSurvey_def updateSurvey_def updateSurvey_data_def
  createModule_def createModule_payload_def updateModule_def updateModule_payload_def getModule_def
  deleteModule_def handleResponse_def wrap_error_def ok_def fetch_def new_Date_toISOString_def
  world_of_def backend_without_def backend_with_def demo_clock_def opt_prop_def
  API_BASE_URL_def json_headers_def ToString_def show_nat.simps stored_demo_def
  last_payload_def last_method_def

lemma createModule_requests:
  "requests (snd (createModule md w)) = requests w @
     [\<lparr>rmethod = ''POST'', url = API_BASE_URL @ ''/modules'', headers = json_headers,
       body = Some (JObj (createModule_payload md (clock w (clock_reads w)) (clock w (Suc (clock_reads w)))))\<rparr>]"
  by (simp add: createModule_def fetch_def new_Date_toISOString_def Let_def split: prod.splits)

lemma getModule_world:
  "snd (getModule mid w) = w\<lparr>requests := requests w @
       [\<lparr>rmethod = ''GET'', url = API_BASE_URL @ ''/modules/'' @ ToString mid, headers = [], body = None\<rparr>]\<rparr>"
  by (auto simp: getModule_def fetch_def Let_def split: prod.splits)

lemma updateModule_requests:
  assumes "fst (getModule mid w) = Inr ex"
  shows "requests (snd (updateModule mid md w)) = requests w @
     [\<lparr>rmethod = ''GET'', url = API_BASE_URL @ ''/modules/'' @ ToString mid, headers = [], body = None\<rparr>,
      \<lparr>rmethod = ''PUT'', url = API_BASE_URL @ ''/modules/'' @ ToString mid, headers = json_headers,
       body = Some (JObj (updateModule_payload ex md (clock w (clock_reads w))))\<rparr>]"
proof -
  obtain w1 where g: "getModule mid w = (Inr ex, w1)" using assms by (cases "getModule mid w") auto
  with getModule_world[of mid w] have "w1 = w\<lparr>requests := requests w @
       [\<lparr>rmethod = ''GET'', url = API_BASE_URL @ ''/modules/'' @ ToString mid, headers = [], body = None\<rparr>]\<rparr>"
    by simp
  with g show ?thesis
    by (simp add: updateModule_def fetch_def new_Date_toISOString_def Let_def split: prod.splits)
qed

lemma updateModule_falls_back:
  assumes "fst (getModule mid w) = Inl e"
  shows "updateModule mid md w =
     createModule (md @ [(''name'', or_default (field md ''name'') (JStr (''Survey '' @ ToString mid)))])
       (snd (getModule mid w))"
  using assms by (cases "getModule mid w") (simp add: updateModule_def)

lemma getModule_not_found:
  assumes "respond w (length (requests w))
     \<lparr>rmethod = ''GET'', url = API_BASE_URL @ ''/modules/'' @ ToString mid, headers = [], body = None\<rparr> = Inr resp"
    and "status resp = 404"
  shows "fst (getModule mid w) = Inl (''Module with ID '' @ ToString mid @ '' not found'')"
  using assms by (simp add: getModule_def fetch_def)

lemma last_payload_create:
  "last_payload (snd (createModule md w)) =
     JObj (createModule_payload md (clock w (clock_reads w)) (clock w (Suc (clock_reads w))))"
  "last_method (snd (createModule md w)) = ''POST''"
  by (simp_all add: last_payload_def last_method_def createModule_requests)

lemma last_payload_update:
  assumes "fst (getModule mid w) = Inr ex"
  shows "last_payload (snd (updateModule mid md w)) = JObj (updateModule_payload ex md (clock w (clock_reads w)))"
    "last_method (snd (updateModule mid md w)) = ''PUT''"
  by (simp_all add: last_payload_def last_method_def updateModule_requests[OF assms])

lemma truthy_or_default: "truthy_json d \<Longrightarrow> truthy_json (or_default a d)"
  by (simp add: or_default_def split: option.splits)

lemma field_Nil: "field [] k = None"
  by (simp add: field_def)

lemma field_Cons:
  "field ((k, v) # ob) k' = (case field ob k' of Some x \<Rightarrow> Some x | None \<Rightarrow> if k' = k then Some v else None)"
  by (simp add: field_def map_add_def split: option.splits)

lemma field_opt_prop: "field (opt_prop k v) k' = (if k' = k then v else None)"
  by (cases v) (simp_all add: opt_prop_def field_def)

lemma truthy_Some: "truthy v \<Longrightarrow> \<exists>j. v = Some j"
  by (cases v) (simp_all add: truthy_def)

lemma create_payload_fields:
  "field (createModule_payload md t1 t2) ''form_data'' = None"
  "field (createModule_payload md t1 t2) ''surveyJson'' =
     Some (or_default (js_or (field md ''surveyJson'') (field md ''form_data'')) default_survey)"
  by (simp_all add: createModule_payload_def field_def)

lemma update_payload_other:
  assumes "k \<noteq> ''updatedAt''" "k \<noteq> ''surveyJson''" "k \<noteq> ''form_data''"
  shows "field (updateModule_payload ex md t) k =
     (case field md k of Some v \<Rightarrow> Some v | None \<Rightarrow> field (own_props ex) k)"
  using assms
  by (simp add: updateModule_payload_def Let_def field_append field_Cons field_Nil field_opt_prop)

lemma update_payload_updatedAt:
  "field (updateModule_payload ex md t) ''updatedAt'' = Some (JStr t)"
  by (simp add: updateModule_payload_def Let_def field_append field_Cons field_Nil field_opt_prop)

lemma update_payload_surveyJson:
  "field (updateModule_payload ex md t) ''surveyJson'' =
     (if truthy (field md ''form_data'') \<and> \<not> truthy (field md ''surveyJson'')
      then field md ''form_data''
      else (case field md ''surveyJson'' of Some v \<Rightarrow> Some v | None \<Rightarrow> field (own_props ex) ''surveyJson''))"
  by (auto simp add: updateModule_payload_def Let_def field_append field_Cons field_Nil field_opt_prop
      dest: truthy_Some split: option.splits)

lemma update_payload_form_data:
  "field (updateModule_payload ex md t) ''form_data'' =
     (if truthy (field md ''surveyJson'') \<and> \<not> truthy (field md ''form_data'')
      then field md ''surveyJson''
      else (case field md ''form_data'' of Some v \<Rightarrow> Some v | None \<Rightarrow> field (own_props ex) ''form_data''))"
  by (auto simp add: updateModule_payload_def Let_def field_append field_Cons field_Nil field_opt_prop
      dest: truthy_Some split: option.splits)

lemma updateSurvey_data_fields:
  assumes "truthy (field sd ''surveyJson'') \<or> truthy (field sd ''form_data'')"
  shows "field (updateSurvey_data sd) ''surveyJson'' = js_or (field sd ''form_data'') (field sd ''surveyJson'')"
    "field (updateSurvey_data sd) ''form_data'' = js_or (field sd ''form_data'') (field sd ''surveyJson'')"
    "truthy (js_or (field sd ''form_data'') (field sd ''surveyJson''))"
  using assms
  by (auto simp add: updateSurvey_data_def Let_def field_append field_Cons field_Nil field_opt_prop js_or_def
      dest: truthy_Some split: option.splits)


text \<open>
  What the client does with the two names of the survey document. \<open>createModule\<close>
  accepts the document under \<open>surveyJson\<close> or, when that is missing or falsy, under
  \<open>form_data\<close>, and the payload it posts always has \<open>surveyJson\<close> populated (with a
  default document when neither is given). When the module exists, \<open>updateModule\<close> with
  a patch that gives exactly one of the two fields puts a payload with both fields equal
  to that document; and \<open>updateSurvey\<close>, given at least one of them, puts a payload with
  both fields equal to one document.
\<close>

lemma survey_document_fields:
  "(last_method (snd (createModule md w)) = ''POST'' \<and>
    get_prop (last_payload (snd (createModule md w))) ''surveyJson'' =
      Some (or_default (js_or (field md ''surveyJson'') (field md ''form_data'')) default_survey) \<and>
    truthy (get_prop (last_payload (snd (createModule md w))) ''surveyJson'') \<and>
    get_prop (last_payload (snd (createModule md w))) ''form_data'' = None) \<and>
   (fst (getModule mid w) = Inr ex \<and>
    truthy (field md ''surveyJson'') \<noteq> truthy (field md ''form_data'') \<longrightarrow>
      last_method (snd (updateModule mid md w)) = ''PUT'' \<and>
      truthy (js_or (field md ''surveyJson'') (field md ''form_data'')) \<and>
      get_prop (last_payload (snd (updateModule mid md w))) ''surveyJson'' =
        js_or (field md ''surveyJson'') (field md ''form_data'') \<and>
      get_prop (last_payload (snd (updateModule mid md w))) ''form_data'' =
        js_or (field md ''surveyJson'') (field md ''form_data'')) \<and>
   (fst (getModule mid w) = Inr ex \<and>
    (truthy (field sd ''surveyJson'') \<or> truthy (field sd ''form_data'')) \<longrightarrow>
      last_method (snd (updateSurvey mid sd w)) = ''PUT'' \<and>
      truthy (js_or (field sd ''form_data'') (field sd ''surveyJson'')) \<and>
      get_prop (last_payload (snd (updateSurvey mid sd w))) ''surveyJson'' =
        js_or (field sd ''form_data'') (field sd ''surveyJson'') \<and>
      get_prop (last_payload (snd (updateSurvey mid sd w))) ''form_data'' =
        js_or (field sd ''form_data'') (field sd ''surveyJson''))"
proof -
  have d: "truthy_json default_survey" by (simp add: default_survey_def)
  have 1: "last_method (snd (createModule md w)) = ''POST'' \<and>
    get_prop (last_payload (snd (createModule md w))) ''surveyJson'' =
      Some (or_default (js_or (field md ''surveyJson'') (field md ''form_data'')) default_survey) \<and>
    truthy (get_prop (last_payload (snd (createModule md w))) ''surveyJson'') \<and>
    get_prop (last_payload (snd (createModule md w))) ''form_data'' = None"
    using truthy_or_default[OF d]
    by (simp add: last_payload_create get_prop_def create_payload_fields truthy_def)
  have 2: "fst (getModule mid w) = Inr ex \<and>
    truthy (field md ''surveyJson'') \<noteq> truthy (field md ''form_data'') \<longrightarrow>
      last_method (snd (updateModule mid md w)) = ''PUT'' \<and>
      truthy (js_or (field md ''surveyJson'') (field md ''form_data'')) \<and>
      get_prop (last_payload (snd (updateModule mid md w))) ''surveyJson'' =
        js_or (field md ''surveyJson'') (field md ''form_data'') \<and>
      get_prop (last_payload (snd (updateModule mid md w))) ''form_data'' =
        js_or (field md ''surveyJson'') (field md ''form_data'')"
    by (auto simp add: last_payload_update get_prop_def update_payload_surveyJson
        update_payload_form_data js_or_def dest: truthy_Some)
  have 3: "fst (getModule mid w) = Inr ex \<and>
    (truthy (field sd ''surveyJson'') \<or> truthy (field sd ''form_data'')) \<longrightarrow>
      last_method (snd (updateSurvey mid sd w)) = ''PUT'' \<and>
      truthy (js_or (field sd ''form_data'') (field sd ''surveyJson'')) \<and>
      get_prop (last_payload (snd (updateSurvey mid sd w))) ''surveyJson'' =
        js_or (field sd ''form_data'') (field sd ''surveyJson'') \<and>
      get_prop (last_payload (snd (updateSurvey mid sd w))) ''form_data'' =
        js_or (field sd ''form_data'') (field sd ''surveyJson'')"
  proof
    assume a: "fst (getModule mid w) = Inr ex \<and>
      (truthy (field sd ''surveyJson'') \<or> truthy (field sd ''form_data''))"
    then have g: "fst (getModule mid w) = Inr ex"
      and t: "truthy (field sd ''surveyJson'') \<or> truthy (field sd ''form_data'')" by simp_all
    note f = updateSurvey_data_fields[OF t]
    from f(3) obtain j where j: "js_or (field sd ''form_data'') (field sd ''surveyJson'') = Some j"
      by (auto dest: truthy_Some)
    show "last_method (snd (updateSurvey mid sd w)) = ''PUT'' \<and>
      truthy (js_or (field sd ''form_data'') (field sd ''surveyJson'')) \<and>
      get_prop (last_payload (snd (updateSurvey mid sd w))) ''surveyJson'' =
        js_or (field sd ''form_data'') (field sd ''surveyJson'') \<and>
      get_prop (last_payload (snd (updateSurvey mid sd w))) ''form_data'' =
        js_or (field sd ''form_data'') (field sd ''surveyJson'')"
      using f j
      by (simp add: updateSurvey_def last_payload_update[OF g] get_prop_def
          update_payload_surveyJson update_payload_form_data)
  qed
  from 1 2 3 show ?thesis by blast
qed

lemma survey_document_fields_at_stored_module:
  "fst (getModule (Some (JStr ''1'')) (world_of (backend_with stored_demo))) = Inr (JObj stored_demo) \<and>
   truthy (field [(''surveyJson'', JObj [(''title'', JStr ''Z'')])] ''surveyJson'') \<noteq>
     truthy (field [(''surveyJson'', JObj [(''title'', JStr ''Z'')])] ''form_data'') \<and>
   get_prop (last_payload (snd (updateModule (Some (JStr ''1''))
      [(''surveyJson'', JObj [(''title'', JStr ''Z'')])] (world_of (backend_with stored_demo)))))
      ''form_data'' = Some (JObj [(''title'', JStr ''Z'')]) \<and>
   get_prop (last_payload (snd (updateSurvey (Some (JStr ''1''))
      [(''surveyJson'', JObj [(''title'', JStr ''Z'')])] (world_of (backend_with stored_demo)))))
      ''surveyJson'' = Some (JObj [(''title'', JStr ''Z'')]) \<and>
   get_prop (last_payload (snd (createModule [(''surveyJson'', JObj [(''title'', JStr ''Z'')])]
      (world_of (backend_with stored_demo))))) ''form_data'' = None"
proof -
  have h1: "fst (getModule (Some (JStr ''1'')) (world_of (backend_with stored_demo))) = Inr (JObj stored_demo)"
    by (simp add: client_defs)
  have h2: "truthy (field [(''surveyJson'', JObj [(''title'', JStr ''Z'')])] ''surveyJson'')"
    "\<not> truthy (field [(''surveyJson'', JObj [(''title'', JStr ''Z'')])] ''form_data'')"
    "js_or (field [(''surveyJson'', JObj [(''title'', JStr ''Z'')])] ''surveyJson'')
           (field [(''surveyJson'', JObj [(''title'', JStr ''Z'')])] ''form_data'') =
       Some (JObj [(''title'', JStr ''Z'')])"
    "js_or (field [(''surveyJson'', JObj [(''title'', JStr ''Z'')])] ''form_data'')
           (field [(''surveyJson'', JObj [(''title'', JStr ''Z'')])] ''surveyJson'') =
       Some (JObj [(''title'', JStr ''Z'')])"
    by (simp_all add: field_def truthy_def js_or_def)
  from survey_document_fields[where md = "[(''surveyJson'', JObj [(''title'', JStr ''Z'')])]"
      and sd = "[(''surveyJson'', JObj [(''title'', JStr ''Z'')])]"
      and mid = "Some (JStr ''1'')" and w = "world_of (backend_with stored_demo)"
      and ex = "JObj stored_demo"] h1 h2
  show ?thesis by simp
qed

text \<open>
  C7, at concrete inputs. The update paths write the alias (\<open>Keep both for
  compatibility\<close>); \<open>createModule\<close> builds its payload from six named fields, and
  \<open>form_data\<close> is not one of them. Given the document under \<open>form_data\<close>, the POST
  carries it as \<open>surveyJson\<close> and carries no \<open>form_data\<close>. \<open>updateSurvey\<close> of a
  module the backend does not hold passes both fields to \<open>updateModule\<close>, which falls
  back to \<open>createModule\<close>: the POST again carries no \<open>form_data\<close>. And \<open>createSurvey\<close>
  passes on \<open>surveyJson\<close> only: a document given under \<open>form_data\<close> is not accepted,
  the default document is posted in its place.
\<close>

theorem create_drops_alias:
  "get_prop (last_payload (snd (createModule [(''form_data'', JObj [(''title'', JStr ''A'')])]
     (world_of backend_without)))) ''surveyJson'' = Some (JObj [(''title'', JStr ''A'')]) \<and>
   get_prop (last_payload (snd (createModule [(''form_data'', JObj [(''title'', JStr ''A'')])]
     (world_of backend_without)))) ''form_data'' = None \<and>
   updateSurvey_data [(''surveyJson'', JObj [(''title'', JStr ''A'')])] =
     [(''surveyJson'', JObj [(''title'', JStr ''A'')]), (''form_data'', JObj [(''title'', JStr ''A'')])] \<and>
   last_method (snd (updateSurvey (Some (JStr ''7'')) [(''surveyJson'', JObj [(''title'', JStr ''A'')])]
     (world_of backend_without))) = ''POST'' \<and>
   get_prop (last_payload (snd (updateSurvey (Some (JStr ''7''))
     [(''surveyJson'', JObj [(''title'', JStr ''A'')])] (world_of backend_without)))) ''surveyJson'' =
     Some (JObj [(''title'', JStr ''A'')]) \<and>
   get_prop (last_payload (snd (updateSurvey (Some (JStr ''7''))
     [(''surveyJson'', JObj [(''title'', JStr ''A'')])] (world_of backend_without)))) ''form_data'' = None \<and>
   get_prop (last_payload (snd (createSurvey [(''name'', JStr ''N''), (''form_data'', JObj [(''title'', JStr ''A'')])]
     (world_of backend_without)))) ''surveyJson'' = Some default_survey"
  by (simp add: client_defs get_prop_def field_def js_or_def truthy_def or_default_def Let_def)

text \<open>
  C10, as the spec has it: every field of the stored module that the patch does not
  mention is transmitted unchanged. The stored module has \<open>form_data\<close> with title Y;
  the patch gives \<open>surveyJson\<close> only, with title Z; the payload put has \<open>form_data\<close>
  with title Z.
\<close>

theorem update_overwrites_alias_counterexample:
  "field [(''surveyJson'', JObj [(''title'', JStr ''Z'')])] ''form_data'' = None \<and>
   fst (getModule (Some (JStr ''1'')) (world_of (backend_with stored_demo))) = Inr (JObj stored_demo) \<and>
   field stored_demo ''form_data'' = Some (JObj [(''title'', JStr ''Y'')]) \<and>
   get_prop (last_payload (snd (updateModule (Some (JStr ''1''))
      [(''surveyJson'', JObj [(''title'', JStr ''Z'')])] (world_of (backend_with stored_demo)))))
      ''form_data'' = Some (JObj [(''title'', JStr ''Z'')])"
  by (simp add: client_defs get_prop_def field_def js_or_def truthy_def or_default_def Let_def own_props_def)

text \<open>
  C10, amended. When the backend holds a module under the id, the request that
  \<open>updateModule\<close> makes last is a PUT whose payload has: for every field other than
  \<open>updatedAt\<close>, \<open>surveyJson\<close> and \<open>form_data\<close>, the value of the patch when the patch
  mentions it and the value of the stored module otherwise; \<open>updatedAt\<close> as the clock
  gives it; and \<open>surveyJson\<close> and \<open>form_data\<close> likewise from the patch or else the
  stored module, except that when the patch gives a truthy value for exactly one of the
  two, the other is set to that value as well.
\<close>

theorem update_payload_overlay:
  "fst (getModule mid w) = Inr ex \<Longrightarrow>
     last_method (snd (updateModule mid md w)) = ''PUT'' \<and>
     (k \<noteq> ''updatedAt'' \<and> k \<noteq> ''surveyJson'' \<and> k \<noteq> ''form_data'' \<longrightarrow>
        get_prop (last_payload (snd (updateModule mid md w))) k =
          (case field md k of Some v \<Rightarrow> Some v | None \<Rightarrow> field (own_props ex) k)) \<and>
     get_prop (last_payload (snd (updateModule mid md w))) ''updatedAt'' =
       Some (JStr (clock w (clock_reads w))) \<and>
     get_prop (last_payload (snd (updateModule mid md w))) ''surveyJson'' =
       (if truthy (field md ''form_data'') \<and> \<not> truthy (field md ''surveyJson'')
        then field md ''form_data''
        else (case field md ''surveyJson'' of Some v \<Rightarrow> Some v
              | None \<Rightarrow> field (own_props ex) ''surveyJson'')) \<and>
     get_prop (last_payload (snd (updateModule mid md w))) ''form_data'' =
       (if truthy (field md ''surveyJson'') \<and> \<not> truthy (field md ''form_data'')
        then field md ''surveyJson''
        else (case field md ''form_data'' of Some v \<Rightarrow> Some v
              | None \<Rightarrow> field (own_props ex) ''form_data''))"
  by (simp add: last_payload_update get_prop_def update_payload_other update_payload_updatedAt
      update_payload_surveyJson update_payload_form_data)

theorem update_payload_overlay_witness:
  "fst (getModule (Some (JStr ''1'')) (world_of (backend_with stored_demo))) = Inr (JObj stored_demo) \<and>
   get_prop (last_payload (snd (updateModule (Some (JStr ''1'')) [(''name'', JStr ''Renamed'')]
      (world_of (backend_with stored_demo))))) ''status'' = Some (JStr ''Draft'') \<and>
   get_prop (last_payload (snd (updateModule (Some (JStr ''1'')) [(''name'', JStr ''Renamed'')]
      (world_of (backend_with stored_demo))))) ''updatedAt'' = Some (JStr (demo_clock 0)) \<and>
   get_prop (last_payload (snd (updateModule (Some (JStr ''1'')) [(''name'', JStr ''Renamed'')]
      (world_of (backend_with stored_demo))))) ''form_data'' = Some (JObj [(''title'', JStr ''Y'')])"
proof -
  have h1: "fst (getModule (Some (JStr ''1'')) (world_of (backend_with stored_demo))) = Inr (JObj stored_demo)"
    by (simp add: client_defs)
  have h2: "field [(''name'', JStr ''Renamed'')] ''status'' = None"
    "field [(''name'', JStr ''Renamed'')] ''form_data'' = None"
    "field [(''name'', JStr ''Renamed'')] ''surveyJson'' = None"
    "field (own_props (JObj stored_demo)) ''status'' = Some (JStr ''Draft'')"
    "field (own_props (JObj stored_demo)) ''form_data'' = Some (JObj [(''title'', JStr ''Y'')])"
    "clock (world_of (backend_with stored_demo)) (clock_reads (world_of (backend_with stored_demo))) =
       demo_clock 0"
    by (simp_all add: field_def own_props_def stored_demo_def world_of_def)
  from update_payload_overlay[OF h1, where md = "[(''name'', JStr ''Renamed'')]" and k = "''status''"]
    h1 h2
  show ?thesis by (simp add: truthy_def)
qed

section \<open>The module id of a session\<close>

text \<open>
  The branch a save takes is decided by the module id the session was mounted with, for
  the whole session: the closure is made once, and every call it issues is an update of
  that id when it is truthy, a creation otherwise. What a successful creation stores is
  the state, which later saves do not read; a successful update stores no id.
\<close>

lemma begin_issues:
  "saveSurveyFunc_begin S p cap inst ld n s = (s', es, Some q) \<Longrightarrow> issues_only p cap (call q)"
  by (auto simp: adapter_defs issues_only_def split: if_splits)

lemma closure_bound_doSave:
  assumes "closure_bound p cap c"
  shows "closure_bound p cap (doSave S p inst ld n c)"
proof -
  from assms have cap: "creator (sess c) = Some cap" by (simp add: closure_bound_def)
  obtain s' es pd where b: "saveSurveyFunc_begin S p cap inst ld n (sess c) = (s', es, pd)"
    by (cases "saveSurveyFunc_begin S p cap inst ld n (sess c)")
  from begin_frame(1)[OF b] cap have cr: "creator s' = Some cap" by simp
  show ?thesis
  proof (cases pd)
    case None
    with assms b cap cr show ?thesis by (simp add: doSave_def closure_bound_def)
  next
    case (Some q)
    with b have "issues_only p cap (call q)" by (auto dest: begin_issues)
    with Some assms b cap cr show ?thesis by (simp add: doSave_def closure_bound_def)
  qed
qed

lemma closure_bound_step:
  assumes "closure_bound p cap c"
  shows "closure_bound p cap (step S p saved c e)"
proof (cases e)
  case (AutoSave inst ld n)
  from closure_bound_doSave[OF assms] have x: "closure_bound p cap (doSave S p inst ld n c)" .
  then have "creator (sess (doSave S p inst ld n c)) \<noteq> None" by (simp add: closure_bound_def)
  with x AutoSave show ?thesis by (simp add: render_id)
next
  case (CtrlS inst ld n)
  from assms have "closure_bound p cap (c\<lparr>sess := (sess c)\<lparr>manualSaveRef := True\<rparr>\<rparr>)"
    by (simp add: closure_bound_def)
  from closure_bound_doSave[OF this]
  have x: "closure_bound p cap (doSave S p inst ld n (c\<lparr>sess := (sess c)\<lparr>manualSaveRef := True\<rparr>\<rparr>))" .
  then have "creator (sess (doSave S p inst ld n (c\<lparr>sess := (sess c)\<lparr>manualSaveRef := True\<rparr>\<rparr>))) \<noteq> None"
    by (simp add: closure_bound_def)
  with x CtrlS assms show ?thesis by (simp add: render_id closure_bound_def)
next
  case (Settle r inst)
  show ?thesis
  proof (cases "outstanding c")
    case Nil
    with Settle assms show ?thesis by simp
  next
    case (Cons pd rest)
    obtain s' es where rs: "saveSurveyFunc_resume p inst pd r (sess c) = (s', es)"
      by (cases "saveSurveyFunc_resume p inst pd r (sess c)")
    from resume_frame(1)[OF rs] assms have cr: "creator s' = Some cap" by (simp add: closure_bound_def)
    let ?c' = "c\<lparr>sess := s', outstanding := rest, emitted := emitted c @ es,
                  settled := settled c @ [(call pd, r)]\<rparr>"
    from assms Cons cr have x: "closure_bound p cap ?c'" by (simp add: closure_bound_def)
    then have "creator (sess ?c') \<noteq> None" by (simp add: closure_bound_def)
    with x Settle Cons rs show ?thesis by (simp add: render_id)
  qed
qed

lemma closure_bound_run:
  "closure_bound p cap c \<Longrightarrow> closure_bound p cap (run S p saved c es)"
  unfolding run_def by (induction es arbitrary: c) (auto intro: closure_bound_step)

lemma closure_decides_branch:
  "list_all (issues_only p (currentModuleId (initial_session p)))
     (issued (run S p saved (mount S p saved) es))"
proof -
  have "closure_bound p (currentModuleId (initial_session p)) (mount S p saved)"
    by (simp add: closure_bound_def mount_def useEffect_creator_def initial_session_def)
  from closure_bound_run[OF this] show ?thesis by (simp add: closure_bound_def)
qed

lemma create_success_stores_id:
  assumes "call pd = CreateSurvey d" "truthy_json result" "truthy (get_prop result ''id'')"
  shows "currentModuleId (fst (saveSurveyFunc_resume p inst pd (Inr result) s)) = get_prop result ''id''"
  using assms by (simp add: adapter_defs)

lemma update_success_keeps_id:
  assumes "call pd = UpdateSurvey i d"
  shows "currentModuleId (fst (saveSurveyFunc_resume p inst pd r s)) = currentModuleId s"
  using assms by (cases r) (simp_all add: adapter_defs)

text \<open>
  C1, at a concrete session. A new survey is saved twice through the Resource Client.
  The first save creates the module and \<open>setCurrentModuleId\<close> stores its id ("0"). The
  save function is the closure of the first run of the effect, in which
  \<open>currentModuleId\<close> is \<open>null\<close>; the second save therefore takes the create branch again:
  both calls issued are creations, both requests are POSTs to the collection.
\<close>

theorem stale_closure_creates_again:
  "currentModuleId (sess (fst new_survey_saved_once)) = Some (JStr ''0'') \<and>
   map call_document (issued (fst new_survey_saved_twice)) =
     [Some (JObj [(''title'', JStr ''A'')]), Some (JObj [(''title'', JStr ''B'')])] \<and>
   map rmethod (requests (snd new_survey_saved_twice)) = [''POST'', ''POST''] \<and>
   map url (requests (snd new_survey_saved_twice)) =
     [''http://localhost:4000/modules'', ''http://localhost:4000/modules'']"
  by (simp add: new_survey_saved_twice_def new_survey_saved_once_def eval_defs client_defs call_document_def)

text \<open>
  C6, at a concrete session. Module "7" is edited after the backend has deleted it. The
  first save calls update with "7"; the client finds no module and creates one, and the
  result carries the new id "1". The update branch of the save function does not store
  the id of the result: the session still holds "7", and the second save reads module
  "7" again, fails again and creates a second module.
\<close>

theorem fallback_id_not_adopted:
  "map fst (settled (fst deleted_module_saved_once)) =
     [UpdateSurvey (Some (JStr ''7'')) [(''surveyJson'', JObj [(''title'', JStr ''A'')])]] \<and>
   map (\<lambda>x. case snd x of Inl e \<Rightarrow> None | Inr v \<Rightarrow> get_prop v ''id'') (settled (fst deleted_module_saved_once)) =
     [Some (JStr ''1'')] \<and>
   currentModuleId (sess (fst deleted_module_saved_once)) = Some (JStr ''7'') \<and>
   map rmethod (requests (snd deleted_module_saved_twice)) = [''GET'', ''POST'', ''GET'', ''POST''] \<and>
   map url (requests (snd deleted_module_saved_twice)) =
     [''http://localhost:4000/modules/7'', ''http://localhost:4000/modules'',
      ''http://localhost:4000/modules/7'', ''http://localhost:4000/modules'']"
  by (simp add: deleted_module_saved_twice_def deleted_module_saved_once_def eval_defs client_defs)

section \<open>Properties of the duplicate cleanup\<close>

text \<open>
  When no name is inherited, the grouping succeeds and the group of a key is the list of
  the modules with that key, in the order of the list; \<open>Object.entries\<close> visits every
  group once.
\<close>

lemma bucket_update:
  "bucket (AList.update k v g) k' = (if k' = k then v else bucket g k')"
  by (simp add: bucket_def update_conv')

lemma bucket_snoc:
  "map_of g k = None \<Longrightarrow> bucket (g @ [(k, v)]) k' = (if k' = k then v else bucket g k')"
  by (auto simp: bucket_def map_add_def split: option.splits)

lemma group_modules_buckets:
  "group_modules ms g = Some g' \<Longrightarrow>
     bucket g' k = bucket g k @ filter (\<lambda>m. group_key m = k) ms"
proof (induction ms arbitrary: g)
  case Nil
  then show ?case by simp
next
  case (Cons m ms)
  show ?case
  proof (cases "map_of g (group_key m)")
    case None
    with Cons.prems have nk: "group_key m \<notin> set Object_prototype_keys"
      and r: "group_modules ms (g @ [(group_key m, [m])]) = Some g'"
      by (auto split: if_splits)
    from None have "bucket g (group_key m) = []" by (simp add: bucket_def)
    with Cons.IH[OF r] None show ?thesis by (auto simp: bucket_snoc)
  next
    case (Some grp)
    with Cons.prems have r: "group_modules ms (AList.update (group_key m) (grp @ [m]) g) = Some g'"
      by simp
    from Some have "bucket g (group_key m) = grp" by (simp add: bucket_def)
    with Cons.IH[OF r] show ?thesis by (auto simp: bucket_update)
  qed
qed

lemma group_modules_total:
  "list_all (\<lambda>m. group_key m \<notin> set Object_prototype_keys) ms \<Longrightarrow> group_modules ms g \<noteq> None"
  by (induction ms arbitrary: g) (auto split: option.splits)

lemma mset_Object_entries: "mset (Object_entries g) = mset g"
  by (simp add: Object_entries_def)

text \<open>
  The sweep tries every module it set out to delete, whatever the deletions answer, and
  the count it shows is the number of deletions that returned.
\<close>

lemma delete_each_result:
  "delete_each del ms (n, tr, w) = (n', tr', w') \<Longrightarrow>
     map fst tr' = map fst tr @ map (\<lambda>m. field m ''id'') ms \<and>
     (n = length (filter snd tr) \<longrightarrow> n' = length (filter snd tr'))"
proof (induction ms arbitrary: n tr w)
  case Nil
  then show ?case by simp
next
  case (Cons m ms)
  obtain r w1 where d: "del (field m ''id'') w = (r, w1)" by (cases "del (field m ''id'') w")
  show ?case
  proof (cases r)
    case (Inl e)
    with Cons.prems d have "delete_each del ms (n, tr @ [(field m ''id'', False)], w1) = (n', tr', w')"
      by simp
    from Cons.IH[OF this] show ?thesis by simp
  next
    case (Inr v)
    with Cons.prems d have "delete_each del ms (Suc n, tr @ [(field m ''id'', True)], w1) = (n', tr', w')"
      by simp
    from Cons.IH[OF this] show ?thesis by simp
  qed
qed

lemma sweep_groups_result:
  "sweep_groups D del gs (n, tr, w) = (n', tr', w') \<Longrightarrow>
     map fst tr' = map fst tr @ map (\<lambda>m. field m ''id'') (to_delete D gs) \<and>
     (n = length (filter snd tr) \<longrightarrow> n' = length (filter snd tr'))"
proof (induction gs arbitrary: n tr w)
  case Nil
  then show ?case by (simp add: to_delete_def)
next
  case (Cons g gs)
  obtain name grp where g: "g = (name, grp)" by (cases g)
  show ?case
  proof (cases "1 < length grp")
    case True
    obtain n1 tr1 w1 where d:
      "delete_each del (tl (Array_sort (compare_recent D) grp)) (n, tr, w) = (n1, tr1, w1)"
      by (cases "delete_each del (tl (Array_sort (compare_recent D) grp)) (n, tr, w)")
    with Cons.prems g True have "sweep_groups D del gs (n1, tr1, w1) = (n', tr', w')" by simp
    from Cons.IH[OF this] delete_each_result[OF d] g True show ?thesis
      by (simp add: to_delete_def)
  next
    case False
    with Cons.prems g have "sweep_groups D del gs (n, tr, w) = (n', tr', w')" by simp
    from Cons.IH[OF this] g False show ?thesis by (simp add: to_delete_def)
  qed
qed

lemma cleanup_count_and_tries:
  assumes "group_modules modules [] = Some g"
  shows "shown (fst (handleCleanupDuplicates_onOk D del modules w)) =
       Message_success (''Cleanup completed! Removed '' @
         show_nat (length (filter snd (tried (fst (handleCleanupDuplicates_onOk D del modules w))))) @
         '' duplicate modules.'')"
    and "map fst (tried (fst (handleCleanupDuplicates_onOk D del modules w))) =
       map (\<lambda>m. field m ''id'') (to_delete D (Object_entries g))"
proof -
  obtain n tr w' where s: "sweep_groups D del (Object_entries g) (0, [], w) = (n, tr, w')"
    by (cases "sweep_groups D del (Object_entries g) (0, [], w)")
  from sweep_groups_result[OF s] have "map fst tr = map (\<lambda>m. field m ''id'') (to_delete D (Object_entries g))"
    and "n = length (filter snd tr)" by simp_all
  with assms s show "shown (fst (handleCleanupDuplicates_onOk D del modules w)) =
       Message_success (''Cleanup completed! Removed '' @
         show_nat (length (filter snd (tried (fst (handleCleanupDuplicates_onOk D del modules w))))) @
         '' duplicate modules.'')"
    and "map fst (tried (fst (handleCleanupDuplicates_onOk D del modules w))) =
       map (\<lambda>m. field m ''id'') (to_delete D (Object_entries g))"
    by (simp_all add: handleCleanupDuplicates_onOk_def)
qed

text \<open>
  In a group whose members all have a valid date, the member kept is one with the
  greatest time value, and the members deleted are the others.
\<close>

lemma mset_insert_stable: "mset (insert_stable c x xs) = add_mset x (mset xs)"
  by (induction xs) auto

lemma mset_Array_sort: "mset (Array_sort c xs) = mset xs"
  by (induction xs) (auto simp: mset_insert_stable)

lemma set_insert_stable: "set (insert_stable c x xs) = insert x (set xs)"
  by (induction xs) auto

lemma set_Array_sort: "set (Array_sort c xs) = set xs"
  by (induction xs) (auto simp: set_insert_stable)

lemma positive_compare:
  "dated D x \<Longrightarrow> dated D y \<Longrightarrow> positive (compare_recent D x y) = (recency D x < recency D y)"
  by (auto simp: dated_def positive_def compare_recent_def recency_def)

lemma sorted_insert_stable:
  assumes "dated D x" "list_all (dated D) xs" "sorted_wrt (\<lambda>a b. recency D b \<le> recency D a) xs"
  shows "sorted_wrt (\<lambda>a b. recency D b \<le> recency D a) (insert_stable (compare_recent D) x xs)"
  using assms
proof (induction xs)
  case Nil
  then show ?case by simp
next
  case (Cons y ys)
  show ?case
  proof (cases "recency D x < recency D y")
    case True
    with Cons show ?thesis
      by (auto simp: positive_compare set_insert_stable)
  next
    case False
    with Cons show ?thesis
      by (fastforce simp: positive_compare)
  qed
qed

lemma sorted_Array_sort:
  "list_all (dated D) xs \<Longrightarrow>
     sorted_wrt (\<lambda>a b. recency D b \<le> recency D a) (Array_sort (compare_recent D) xs)"
proof (induction xs)
  case Nil
  then show ?case by simp
next
  case (Cons x xs)
  then have "list_all (dated D) (Array_sort (compare_recent D) xs)"
    by (simp add: list_all_iff set_Array_sort)
  with Cons show ?case by (simp add: sorted_insert_stable)
qed

lemma kept_is_most_recent:
  assumes "list_all (dated D) grp" "m \<in> set grp"
  shows "recency D m \<le> recency D (hd (Array_sort (compare_recent D) grp))"
    and "mset (hd (Array_sort (compare_recent D) grp) # tl (Array_sort (compare_recent D) grp)) = mset grp"
proof -
  from assms(2) have ne: "Array_sort (compare_recent D) grp \<noteq> []"
    using set_Array_sort[of "compare_recent D" grp] by auto
  then obtain k ks where ks: "Array_sort (compare_recent D) grp = k # ks"
    by (cases "Array_sort (compare_recent D) grp") auto
  from sorted_Array_sort[OF assms(1)] ks
  have "\<forall>a\<in>set ks. recency D a \<le> recency D k" by simp
  moreover from assms(2) ks have "m = k \<or> m \<in> set ks"
    using set_Array_sort[of "compare_recent D" grp] by auto
  ultimately show "recency D m \<le> recency D (hd (Array_sort (compare_recent D) grp))"
    using ks by auto
  from ks show "mset (hd (Array_sort (compare_recent D) grp) # tl (Array_sort (compare_recent D) grp)) = mset grp"
    using mset_Array_sort[of "compare_recent D" grp] by simp
qed

text \<open>
  C2, at a concrete list. Two modules are named \<open>constructor\<close>. The lookup
  \<open>moduleGroups["constructor"]\<close> finds the inherited property, no group is made, the
  \<open>push\<close> throws and the handler reports that the cleanup failed: nothing is deleted,
  no request is made.
\<close>

theorem cleanup_aborts_on_inherited_name:
  "fst (handleCleanupDuplicates_onOk Date_of_number deleteModule inherited_name_modules
     (world_of (backend_with []))) =
     \<lparr>shown = Message_error ''Failed to cleanup duplicates'', tried = [], reload = False\<rparr> \<and>
   requests (snd (handleCleanupDuplicates_onOk Date_of_number deleteModule inherited_name_modules
     (world_of (backend_with [])))) = []"
  by (simp add: handleCleanupDuplicates_onOk_def inherited_name_modules_def group_key_def
      Object_prototype_keys_def field_def or_default_def ToString_def world_of_def)

text \<open>
  The example of the spec, with a backend that accepts the deletion: the module with
  id 1 is deleted, no other deletion is tried, and the count shown is 1.
\<close>

lemma cleanup_example:
  "fst (handleCleanupDuplicates_onOk Date_of_number deleteModule example_modules
     (world_of (backend_with []))) =
     \<lparr>shown = Message_success ''Cleanup completed! Removed 1 duplicate modules.'',
      tried = [(Some (JNum 1), True)], reload = True\<rparr> \<and>
   map url (requests (snd (handleCleanupDuplicates_onOk Date_of_number deleteModule example_modules
     (world_of (backend_with []))))) = [''http://localhost:4000/modules/1'']"
  by (simp add: handleCleanupDuplicates_onOk_def example_modules_def group_key_def
      Object_prototype_keys_def field_def or_default_def Object_entries_def is_array_index_def
      is_digit_def nat_of_digits_def compare_recent_def module_time_def Date_of_number_def
      js_or_def truthy_def positive_def client_defs show_int_def)

text \<open>
  The same for any two timestamps the second of which is the later date, and any
  deletion service that accepts the deletion of id 1.
\<close>

lemma cleanup_example_any_dates:
  assumes "Date_ms (Some t1) = Some a" "Date_ms (Some t2) = Some b" "a < b"
    and "truthy_json t1" "truthy_json t2"
    and "fst (del (Some (JNum 1)) w) = Inr v"
  shows "fst (handleCleanupDuplicates_onOk Date_ms del
           [[(''name'', JStr ''A''), (''updatedAt'', t1), (''id'', JNum 1)],
            [(''name'', JStr ''A''), (''updatedAt'', t2), (''id'', JNum 2)],
            [(''name'', JStr ''B''), (''id'', JNum 3)]] w) =
         \<lparr>shown = Message_success ''Cleanup completed! Removed 1 duplicate modules.'',
          tried = [(Some (JNum 1), True)], reload = True\<rparr>"
proof -
  obtain w' where d: "del (Some (JNum 1)) w = (Inr v, w')"
    using assms(6) by (cases "del (Some (JNum 1)) w") auto
  have g: "group_modules
           [[(''name'', JStr ''A''), (''updatedAt'', t1), (''id'', JNum 1)],
            [(''name'', JStr ''A''), (''updatedAt'', t2), (''id'', JNum 2)],
            [(''name'', JStr ''B''), (''id'', JNum 3)]] [] =
        Some [(''A'', [[(''name'', JStr ''A''), (''updatedAt'', t1), (''id'', JNum 1)],
                       [(''name'', JStr ''A''), (''updatedAt'', t2), (''id'', JNum 2)]]),
              (''B'', [[(''name'', JStr ''B''), (''id'', JNum 3)]])]"
    by (simp add: group_key_def Object_prototype_keys_def field_def or_default_def ToString_def)
  have e: "Object_entries [(''A'', x), (''B'', y)] = [(''A'', x), (''B'', y)]" for x y :: "obj list"
    by (simp add: Object_entries_def is_array_index_def is_digit_def)
  have s: "Array_sort (compare_recent Date_ms)
             [[(''name'', JStr ''A''), (''updatedAt'', t1), (''id'', JNum 1)],
              [(''name'', JStr ''A''), (''updatedAt'', t2), (''id'', JNum 2)]] =
           [[(''name'', JStr ''A''), (''updatedAt'', t2), (''id'', JNum 2)],
            [(''name'', JStr ''A''), (''updatedAt'', t1), (''id'', JNum 1)]]"
    using assms(1-5)
    by (simp add: compare_recent_def module_time_def field_def js_or_def truthy_def positive_def)
  show ?thesis
    unfolding handleCleanupDuplicates_onOk_def g
    using d by (simp add: e s field_def show_nat.simps del: Array_sort.simps)
qed

end
